theory Spec2Isabelle
  imports Complex_Main "HOL-Library.AList"
begin

section \<open>Strings\<close>

text \<open>
  JavaScript strings are modelled as \<^typ>\<open>string\<close>: one \<^typ>\<open>char\<close> per code unit, which
  covers the code units \<open>0..255\<close>. \<open>String.prototype.trim\<close> strips white space and line
  terminators from both ends; of those, the code units below 256 are TAB, LF, VT, FF, CR,
  SPACE and NBSP.
\<close>

definition is_ws :: "char \<Rightarrow> bool" where
  "is_ws c = (of_char c \<in> {9::nat, 10, 11, 12, 13, 32, 160})"

definition js_trim :: "string \<Rightarrow> string" where
  "js_trim s = rev (dropWhile is_ws (rev (dropWhile is_ws s)))"

text \<open>\<open>s.split(c)\<close> for a one-character separator: never empty, \<open>''''.split(c) = ['''']\<close>.\<close>

fun js_split :: "char \<Rightarrow> string \<Rightarrow> string list" where
  "js_split c [] = [[]]"
| "js_split c (x # xs) =
     (if x = c then [] # js_split c xs
      else (case js_split c xs of [] \<Rightarrow> [[x]] | y # ys \<Rightarrow> (x # y) # ys))"

text \<open>\<open>xs.join(sep)\<close> on a list of strings.\<close>

fun js_join :: "string \<Rightarrow> string list \<Rightarrow> string" where
  "js_join sep [] = []"
| "js_join sep [x] = x"
| "js_join sep (x # y # ys) = x @ sep @ js_join sep (y # ys)"

text \<open>\<open>x || ''\<close> on a string that may be absent (\<open>None\<close>).\<close>

definition or_empty :: "string option \<Rightarrow> string" where
  "or_empty v = (case v of None \<Rightarrow> [] | Some s \<Rightarrow> s)"

definition is_digit :: "char \<Rightarrow> bool" where
  "is_digit c = (c \<in> set ''0123456789'')"

text \<open>The regular expressions \<open>/^\d{1,20}$/\<close> and \<open>/^\d+$/\<close> (no flags: \<open>\d\<close> is \<open>[0-9]\<close>,
  \<open>$\<close> is the end of the input).\<close>

definition re_digits_1_20 :: "string \<Rightarrow> bool" where
  "re_digits_1_20 s = (1 \<le> length s \<and> length s \<le> 20 \<and> list_all is_digit s)"

definition re_digits_plus :: "string \<Rightarrow> bool" where
  "re_digits_plus s = (1 \<le> length s \<and> list_all is_digit s)"

section \<open>The rate limiter of \<open>api/gamesData.js\<close>\<close>

text \<open>
  \<open>rateState\<close> is a \<open>Map\<close> from the client address to the list of admitted timestamps
  (milliseconds, \<open>Date.now()\<close>). The clock value \<open>now\<close> is an input of each call; the updated
  map is returned together with the verdict.
\<close>

type_synonym rate_state = "string \<rightharpoonup> int list"

definition rateLimit :: "int \<Rightarrow> string \<Rightarrow> nat \<Rightarrow> int \<Rightarrow> rate_state \<Rightarrow> bool \<times> rate_state" where
  "rateLimit now ip limit windowSec rateState =
     (let key = ip;
          bucket = (case rateState key of None \<Rightarrow> [] | Some b \<Rightarrow> b);
          fresh = filter (\<lambda>t. now - t < windowSec * 1000) bucket
      in if length fresh \<ge> limit then (False, rateState(key \<mapsto> fresh))
         else (True, rateState(key \<mapsto> fresh @ [now])))"

text \<open>A run of the limiter as the handler calls it (\<open>rateLimit(ip, 30, 60)\<close>), one call per
  pair of clock value and address, from a given map.\<close>

fun rate_run :: "(int \<times> string) list \<Rightarrow> rate_state \<Rightarrow> rate_state" where
  "rate_run [] rs = rs"
| "rate_run ((now, ip) # rest) rs = rate_run rest (snd (rateLimit now ip 30 60 rs))"

definition bucket_of :: "rate_state \<Rightarrow> string \<Rightarrow> int list" where
  "bucket_of rs ip = (case rs ip of None \<Rightarrow> [] | Some b \<Rightarrow> b)"

text \<open>Every call of the list, made in this order by one address, is denied.\<close>

fun all_denied :: "int list \<Rightarrow> string \<Rightarrow> rate_state \<Rightarrow> bool" where
  "all_denied [] ip rs = True"
| "all_denied (t # ts) ip rs =
     (\<not> fst (rateLimit t ip 30 60 rs) \<and> all_denied ts ip (snd (rateLimit t ip 30 60 rs)))"

section \<open>Identifier validation\<close>

text \<open>The loop of \<open>validatePlaceIds\<close>: \<open>out\<close> is the accumulator, the \<open>break\<close> ends the
  recursion.\<close>

fun validate_loop :: "string list \<Rightarrow> string list \<Rightarrow> string list" where
  "validate_loop [] out = out"
| "validate_loop (r # raw) out =
     (let id = js_trim r;
          out' = (if re_digits_1_20 id then out @ [id] else out)
      in if length out' \<ge> 20 then out' else validate_loop raw out')"

definition validatePlaceIds :: "string \<Rightarrow> string list" where
  "validatePlaceIds idsStr =
     (if idsStr = [] then [] else validate_loop (js_split (CHR '','') idsStr) [])"

text \<open>The retained list as the specification words it: split on commas, trim each token,
  keep the tokens of one to twenty digits in order, stop after the first twenty.\<close>

definition spec_retained :: "string \<Rightarrow> string list" where
  "spec_retained idsStr =
     take 20 (filter re_digits_1_20 (map js_trim (js_split (CHR '','') idsStr)))"

section \<open>Client address\<close>

record request =
  req_method :: string
  x_forwarded_for :: "string option"
  x_real_ip :: "string option"
  remoteAddress :: "string option"
  ids_param :: "string option"

text \<open>\<open>getClientIp\<close> of \<open>api/_lib/utils.js\<close>. A header that is absent is \<open>None\<close>;
  \<open>remoteAddress\<close> is \<open>None\<close> when there is no socket or no peer address. The test
  \<open>typeof x === 'string' && x.length\<close> (and the truthiness test of the peer address) is
  \<open>present\<close>.\<close>

definition present :: "string option \<Rightarrow> string option" where
  "present h = (case h of None \<Rightarrow> None | Some s \<Rightarrow> if s = [] then None else Some s)"

definition getClientIp :: "'a request_scheme \<Rightarrow> string" where
  "getClientIp req =
     (case present (x_forwarded_for req) of
        Some xf \<Rightarrow> js_trim (hd (js_split (CHR '','') xf))
      | None \<Rightarrow>
          (case present (x_real_ip req) of
             Some xr \<Rightarrow> js_trim xr
           | None \<Rightarrow>
               (case present (remoteAddress req) of
                  Some a \<Rightarrow> a
                | None \<Rightarrow> ''0.0.0.0'')))"

section \<open>JSON values as JavaScript sees them\<close>

text \<open>
  A parsed response body. A number is the exact value of the double that \<open>JSON.parse\<close>
  produced, or an infinity (\<open>1e999\<close> parses to \<open>Infinity\<close>); \<open>NaN\<close> does not come out of
  JSON. An object is the list of its members in the order of the text; as \<open>JSON.parse\<close>
  does with a repeated name, reading a property takes the last member of that name.
\<close>

datatype jsnum = Fin rat | PosInf | NegInf

datatype json =
    JNull
  | JBool bool
  | JNum jsnum
  | JStr string
  | JArr "json list"
  | JObj "(string \<times> json) list"

text \<open>Truthiness (\<open>x && ...\<close>, \<open>x || ...\<close>).\<close>

fun truthy :: "json \<Rightarrow> bool" where
  "truthy JNull = False"
| "truthy (JBool b) = b"
| "truthy (JNum (Fin q)) = (q \<noteq> 0)"
| "truthy (JNum PosInf) = True"
| "truthy (JNum NegInf) = True"
| "truthy (JStr s) = (s \<noteq> [])"
| "truthy (JArr xs) = True"
| "truthy (JObj ps) = True"

text \<open>
  \<open>x.key\<close> for the property names the handlers read (\<open>universeId\<close>, \<open>data\<close>, \<open>id\<close>, \<open>name\<close>,
  \<open>visits\<close>, \<open>targetId\<close>, \<open>imageUrl\<close>): no prototype defines one of these, so the result is the
  own property of an object and \<open>undefined\<close> (\<open>None\<close>) on everything else.
\<close>

fun field :: "json \<Rightarrow> string \<Rightarrow> json option" where
  "field (JObj ps) k = map_of (rev ps) k"
| "field _ k = None"

text \<open>\<open>x != null\<close> on a property that may be \<open>undefined\<close>, and \<open>x ?? null\<close>.\<close>

fun not_nullish :: "json option \<Rightarrow> bool" where
  "not_nullish None = False"
| "not_nullish (Some JNull) = False"
| "not_nullish (Some _) = True"

fun or_null :: "json option \<Rightarrow> json" where
  "or_null None = JNull"
| "or_null (Some v) = v"

subsection \<open>Decimal digits\<close>

function dec_nat :: "nat \<Rightarrow> string" where
  "dec_nat n = (if n < 10 then [''0123456789'' ! n]
                else dec_nat (n div 10) @ [''0123456789'' ! (n mod 10)])"
  by pat_completeness auto
termination
  by (relation "measure (\<lambda>n. n)") auto

definition dec_int :: "int \<Rightarrow> string" where
  "dec_int i = (if i < 0 then CHR ''-'' # dec_nat (nat (- i)) else dec_nat (nat i))"

definition digit_val :: "char \<Rightarrow> nat" where
  "digit_val c = of_char c - 48"

definition digits_val :: "string \<Rightarrow> nat" where
  "digits_val s = foldl (\<lambda>a c. 10 * a + digit_val c) 0 s"

subsection \<open>\<open>String(x)\<close>\<close>

text \<open>
  \<open>Number::toString\<close> writes the shortest decimal digits that read back as the same double,
  padded with zeros for an integer below \<open>10^21\<close>. Up to magnitude \<open>2^53\<close> every integer
  is a double and its neighbours are at most one apart, so the text of an integer is its
  exact decimal digits. Beyond that the digits depend on the floating-point format
  (\<open>String(2**64)\<close> is \<open>18446744073709552000\<close>), as they do for a number that is not an
  integer: that text is the parameter \<open>ns\<close> of the model, and every result below holds for
  each choice of it.
\<close>

type_synonym numstr = "rat \<Rightarrow> string"

fun num_String :: "numstr \<Rightarrow> jsnum \<Rightarrow> string" where
  "num_String ns (Fin q) =
     (if of_int \<lfloor>q\<rfloor> = q \<and> \<bar>q\<bar> \<le> 2 ^ 53 then dec_int \<lfloor>q\<rfloor> else ns q)"
| "num_String ns PosInf = ''Infinity''"
| "num_String ns NegInf = ''-Infinity''"

text \<open>
  \<open>String(x)\<close> on a parsed value; \<open>None\<close> is the \<open>TypeError\<close> that \<open>ToPrimitive\<close> throws
  for an object with an own property \<open>toString\<close> (which is not callable, and
  \<open>Object.prototype.valueOf\<close> returns the object itself). An array is joined with commas,
  \<open>null\<close> elements as the empty string.
\<close>

fun js_String :: "numstr \<Rightarrow> json \<Rightarrow> string option" where
  "js_String ns JNull = Some ''null''"
| "js_String ns (JBool b) = Some (if b then ''true'' else ''false'')"
| "js_String ns (JNum n) = Some (num_String ns n)"
| "js_String ns (JStr s) = Some s"
| "js_String ns (JArr xs) =
     map_option (js_join '','')
       (those (map (\<lambda>x. if x = JNull then Some [] else js_String ns x) xs))"
| "js_String ns (JObj ps) =
     (if ''toString'' \<in> fst ` set ps then None else Some ''[object Object]'')"

section \<open>Outbound calls\<close>

text \<open>
  Every URL the handler builds is \<open>https://\<close>, a literal host, and a rest that starts with
  \<open>/\<close>; \<open>new URL(url).host\<close> is that literal, whatever the rest holds. A URL is therefore
  the pair of the two.
\<close>

datatype url = Url (url_host: string) (url_rest: string)

definition ALLOWED_HOSTS :: "string set" where
  "ALLOWED_HOSTS = {''apis.roblox.com'', ''games.roblox.com'', ''thumbnails.roblox.com''}"

text \<open>
  What one \<open>fetch\<close> does: it rejects (network error, the abort of the timeout, a redirect
  under \<open>redirect: 'error'\<close>), or it resolves with a status and a body, where the body
  \<open>None\<close> is a \<open>res.json()\<close> that rejects (malformed JSON, or the abort arriving while the
  body is read). The network is a function of the number of calls made before and of the
  URL, so two calls of one URL may be answered differently.
\<close>

datatype fetch_failure = NetworkError | TimedOut | Redirected

datatype outcome = Rejected fetch_failure | Responded nat "json option"

type_synonym net = "nat \<Rightarrow> url \<Rightarrow> outcome"

text \<open>\<open>fetchJson\<close>: the result (\<open>JNull\<close> is \<open>null\<close>) and the list of the calls made so far.\<close>

definition fetchJson :: "net \<Rightarrow> url \<Rightarrow> url list \<Rightarrow> json \<times> url list" where
  "fetchJson net u calls =
     (if url_host u \<notin> ALLOWED_HOSTS then (JNull, calls)
      else (case net (length calls) u of
              Rejected _ \<Rightarrow> (JNull, calls @ [u])
            | Responded st body \<Rightarrow>
                if \<not> (200 \<le> st \<and> st \<le> 299) then (JNull, calls @ [u])
                else (case body of None \<Rightarrow> (JNull, calls @ [u]) | Some j \<Rightarrow> (j, calls @ [u]))))"

subsection \<open>Place to universe\<close>

text \<open>The two tests and the fallback of \<open>placeToUniverseId\<close>, on the value \<open>fetchJson\<close>
  returned. \<open>String\<close> of a string is the string.\<close>

definition universe_of_data :: "numstr \<Rightarrow> string \<Rightarrow> json \<Rightarrow> string" where
  "universe_of_data ns placeId data =
     (case (if truthy data then field data ''universeId'' else None) of
        Some (JNum n) \<Rightarrow> num_String ns n
      | Some (JStr s) \<Rightarrow> if re_digits_plus s then s else placeId
      | _ \<Rightarrow> placeId)"

definition place_url :: "string \<Rightarrow> url" where
  "place_url placeId = Url ''apis.roblox.com'' (''/universes/v1/places/'' @ placeId @ ''/universe'')"

definition placeToUniverseId :: "numstr \<Rightarrow> net \<Rightarrow> string \<Rightarrow> url list \<Rightarrow> string \<times> url list" where
  "placeToUniverseId ns net placeId calls =
     (let (data, calls') = fetchJson net (place_url placeId) calls
      in (universe_of_data ns placeId data, calls'))"

section \<open>The aggregation handler\<close>

subsection \<open>The universe map\<close>

text \<open>
  \<open>universeMap\<close> is a plain object: its properties in creation order, an assignment to an
  existing key replacing the value in place. \<open>Object.values\<close> lists the array-index keys
  (canonical decimal numerals up to \<open>2^32 - 2\<close>) first, in ascending numeric order, then the
  other keys in creation order.
\<close>

fun resolve_loop ::
  "numstr \<Rightarrow> net \<Rightarrow> string list \<Rightarrow> (string \<times> string) list \<Rightarrow> url list
   \<Rightarrow> (string \<times> string) list \<times> url list" where
  "resolve_loop ns net [] universeMap calls = (universeMap, calls)"
| "resolve_loop ns net (pid # pids) universeMap calls =
     (let (uid, calls') = placeToUniverseId ns net pid calls
      in resolve_loop ns net pids (AList.update pid uid universeMap) calls')"

definition is_array_index :: "string \<Rightarrow> bool" where
  "is_array_index k =
     (k \<noteq> [] \<and> list_all is_digit k \<and> (length k = 1 \<or> hd k \<noteq> CHR ''0'')
      \<and> digits_val k \<le> 4294967294)"

definition Object_values :: "(string \<times> 'v) list \<Rightarrow> 'v list" where
  "Object_values obj =
     map snd (sort_key (\<lambda>p. digits_val (fst p)) (filter (\<lambda>p. is_array_index (fst p)) obj))
     @ map snd (filter (\<lambda>p. \<not> is_array_index (fst p)) obj)"

text \<open>\<open>[...new Set(xs)]\<close>: the first occurrence of each value, in order.\<close>

fun set_loop :: "'a list \<Rightarrow> 'a list \<Rightarrow> 'a list" where
  "set_loop [] seen = seen"
| "set_loop (x # xs) seen = set_loop xs (if x \<in> set seen then seen else seen @ [x])"

definition unique_values :: "'a list \<Rightarrow> 'a list" where
  "unique_values xs = set_loop xs []"

definition games_url :: "string list \<Rightarrow> url" where
  "games_url uniqueUniverses =
     Url ''games.roblox.com'' (''/v1/games?universeIds='' @ js_join '','' uniqueUniverses)"

definition icons_url :: "string list \<Rightarrow> url" where
  "icons_url uniqueUniverses =
     Url ''thumbnails.roblox.com''
       (''/v1/games/icons?universeIds='' @ js_join '','' uniqueUniverses
        @ ''&size=420x420&format=Png&isCircular=false'')"

subsection \<open>The two lookup maps\<close>

text \<open>
  \<open>gameInfo\<close> and \<open>gameIcons\<close> are plain objects (\<open>{}\<close>) filled by \<open>obj[String(key)] = value\<close>.
  Such an assignment creates or replaces an own property, except under the key
  \<open>__proto__\<close>, where it runs the setter of \<open>Object.prototype\<close>: an object or array value
  becomes the prototype and any other value is ignored. The keys read back are canonical
  identifiers: digit strings, or the text of a number.

  For \<open>gameInfo\<close> the value stored is a fresh object \<open>{name, visits}\<close>. As a prototype it
  could only answer the keys \<open>name\<close> and \<open>visits\<close>, which no canonical identifier is, so the
  map is its own properties and an assignment under \<open>__proto__\<close> leaves them unchanged.
\<close>

record info =
  info_name :: json
  info_visits :: json

fun gameInfo_loop :: "numstr \<Rightarrow> json list \<Rightarrow> (string \<rightharpoonup> info) \<Rightarrow> (string \<rightharpoonup> info) option" where
  "gameInfo_loop ns [] gameInfo = Some gameInfo"
| "gameInfo_loop ns (g # gs) gameInfo =
     (if truthy g \<and> not_nullish (field g ''id'') then
        (case js_String ns (or_null (field g ''id'')) of
           None \<Rightarrow> None
         | Some k \<Rightarrow>
             gameInfo_loop ns gs
               (if k = ''__proto__'' then gameInfo
                else gameInfo(k \<mapsto> \<lparr>info_name = or_null (field g ''name''),
                                     info_visits = or_null (field g ''visits'')\<rparr>)))
      else gameInfo_loop ns gs gameInfo)"

definition gameInfo_of :: "numstr \<Rightarrow> json \<Rightarrow> (string \<rightharpoonup> info) option" where
  "gameInfo_of ns infoData =
     (case (if truthy infoData then field infoData ''data'' else None) of
        Some (JArr gs) \<Rightarrow> gameInfo_loop ns gs Map.empty
      | _ \<Rightarrow> Some Map.empty)"

text \<open>
  For \<open>gameIcons\<close> the value stored is the upstream's \<open>imageUrl\<close>, any truthy value. When
  an object or an array is assigned under \<open>__proto__\<close>, a later read of a key that is not
  an own property is answered by that value: by its own property of that name, or by the
  array element of that index. The setter is reached only while no data property
  \<open>__proto__\<close> shadows it: \<open>JSON.parse\<close> creates such a property for the key \<open>__proto__\<close> of a
  parsed object, so once such an object is the prototype, or \<open>gameIcons\<close> has the property
  itself, the assignment is an ordinary one.
\<close>

record icons =
  own_props :: "string \<rightharpoonup> json"
  proto :: "json option"

definition setter_shadowed :: "icons \<Rightarrow> bool" where
  "setter_shadowed gameIcons =
     (own_props gameIcons ''__proto__'' \<noteq> None
      \<or> (case proto gameIcons of
            Some (JObj ps) \<Rightarrow> ''__proto__'' \<in> fst ` set ps
          | _ \<Rightarrow> False))"

definition icons_set :: "icons \<Rightarrow> string \<Rightarrow> json \<Rightarrow> icons" where
  "icons_set gameIcons k v =
     (if k = ''__proto__'' \<and> \<not> setter_shadowed gameIcons then
        (case v of
           JObj _ \<Rightarrow> gameIcons\<lparr>proto := Some v\<rparr>
         | JArr _ \<Rightarrow> gameIcons\<lparr>proto := Some v\<rparr>
         | JNull \<Rightarrow> gameIcons\<lparr>proto := None\<rparr>
         | _ \<Rightarrow> gameIcons)
      else gameIcons\<lparr>own_props := (own_props gameIcons)(k \<mapsto> v)\<rparr>)"

fun proto_prop :: "json \<Rightarrow> string \<Rightarrow> json option" where
  "proto_prop (JObj ps) k = map_of (rev ps) k"
| "proto_prop (JArr xs) k =
     (if is_array_index k \<and> digits_val k < length xs then Some (xs ! digits_val k) else None)"
| "proto_prop _ k = None"

definition icons_get :: "icons \<Rightarrow> string \<Rightarrow> json option" where
  "icons_get gameIcons k =
     (case own_props gameIcons k of
        Some v \<Rightarrow> Some v
      | None \<Rightarrow> (case proto gameIcons of None \<Rightarrow> None | Some p \<Rightarrow> proto_prop p k))"

definition empty_icons :: icons where
  "empty_icons = \<lparr>own_props = Map.empty, proto = None\<rparr>"

fun gameIcons_loop :: "numstr \<Rightarrow> json list \<Rightarrow> icons \<Rightarrow> icons option" where
  "gameIcons_loop ns [] gameIcons = Some gameIcons"
| "gameIcons_loop ns (i # is) gameIcons =
     (if truthy i \<and> not_nullish (field i ''targetId'') \<and> truthy (or_null (field i ''imageUrl'')) then
        (case js_String ns (or_null (field i ''targetId'')) of
           None \<Rightarrow> None
         | Some k \<Rightarrow> gameIcons_loop ns is (icons_set gameIcons k (or_null (field i ''imageUrl''))))
      else gameIcons_loop ns is gameIcons)"

definition gameIcons_of :: "numstr \<Rightarrow> json \<Rightarrow> icons option" where
  "gameIcons_of ns iconData =
     (case (if truthy iconData then field iconData ''data'' else None) of
        Some (JArr is) \<Rightarrow> gameIcons_loop ns is empty_icons
      | _ \<Rightarrow> Some empty_icons)"

subsection \<open>The join\<close>

text \<open>
  One record per element of \<open>placeIds\<close>. \<open>universeMap[pid]\<close> is \<open>None\<close> for \<open>undefined\<close>, which
  as a property key reads \<open>undefined\<close>. \<open>total\<close> is a JavaScript number that only ever holds
  integers; it is modelled by the exact integer, which is the double as long as every
  partial sum stays within \<open>2^53\<close>.
\<close>

record result_record =
  inputId :: string
  universeId :: "string option"
  name :: json
  visits :: json
  icon :: json

definition info_lookup :: "(string \<rightharpoonup> info) \<Rightarrow> string \<Rightarrow> info" where
  "info_lookup gameInfo uid =
     (case gameInfo uid of Some i \<Rightarrow> i | None \<Rightarrow> \<lparr>info_name = JNull, info_visits = JNull\<rparr>)"

definition icon_lookup :: "icons \<Rightarrow> string \<Rightarrow> json" where
  "icon_lookup gameIcons uid =
     (case icons_get gameIcons uid of Some v \<Rightarrow> if truthy v then v else JNull | None \<Rightarrow> JNull)"

definition key_of :: "string option \<Rightarrow> string" where
  "key_of uid = (case uid of None \<Rightarrow> ''undefined'' | Some u \<Rightarrow> u)"

text \<open>\<open>typeof v === 'number' && Number.isFinite(v)\<close>, and \<open>Math.floor(v)\<close> of such a value.\<close>

fun finite_number :: "json \<Rightarrow> bool" where
  "finite_number (JNum (Fin q)) = True"
| "finite_number _ = False"

fun Math_floor :: "json \<Rightarrow> int" where
  "Math_floor (JNum (Fin q)) = \<lfloor>q\<rfloor>"
| "Math_floor _ = 0"

fun join_loop ::
  "(string \<times> string) list \<Rightarrow> (string \<rightharpoonup> info) \<Rightarrow> icons \<Rightarrow> string list
   \<Rightarrow> result_record list \<Rightarrow> int \<Rightarrow> result_record list \<times> int" where
  "join_loop universeMap gameInfo gameIcons [] out tot = (out, tot)"
| "join_loop universeMap gameInfo gameIcons (pid # pids) out tot =
     (let uid = map_of universeMap pid;
          info = info_lookup gameInfo (key_of uid);
          icon = icon_lookup gameIcons (key_of uid);
          out' = out @ [\<lparr>inputId = pid, universeId = uid, name = info_name info,
                          visits = info_visits info, icon = icon\<rparr>];
          tot' = (if finite_number (info_visits info) then tot + Math_floor (info_visits info)
                  else tot)
      in join_loop universeMap gameInfo gameIcons pids out' tot')"

subsection \<open>The handler\<close>

text \<open>
  The response is the status and the body; headers are left out. The bodies are \<open>{}\<close>,
  \<open>{ok: false, error, code}\<close> (\<open>code\<close> may be absent),
  \<open>{ok: true, data, totalVisits, count}\<close>, \<open>{error}\<close>, an HTML text, and the constant \<open>HTML\<close>
  of the login page. The request carries the \<open>ids\<close> query parameter as
  \<open>url.searchParams.get('ids')\<close> returns it (\<open>None\<close> for \<open>null\<close>).
\<close>

datatype body =
    Empty
  | Failure string "nat option"
  | Success (body_data: "result_record list") (body_totalVisits: string) (body_count: nat)
  | ErrorOnly string
  | Html string
  | LoginPage

record response =
  status :: nat
  body :: body

definition json_response :: "nat \<Rightarrow> body \<Rightarrow> response" where
  "json_response statusCode data = \<lparr>status = statusCode, body = data\<rparr>"

text \<open>The \<open>try\<close> block, in two parts. First the outbound calls: the universe map, the two
  batch results and the calls made.\<close>

definition fetch_stage ::
  "numstr \<Rightarrow> net \<Rightarrow> string list \<Rightarrow> (string \<times> string) list \<times> json \<times> json \<times> url list" where
  "fetch_stage ns net placeIds =
     (let (universeMap, calls1) = resolve_loop ns net placeIds [] [];
          uniqueUniverses = unique_values (Object_values universeMap);
          (infoData, calls2) = fetchJson net (games_url uniqueUniverses) calls1;
          (iconData, calls3) = fetchJson net (icons_url uniqueUniverses) calls2
      in (universeMap, infoData, iconData, calls3))"

text \<open>Then the lookup maps, the join and the response: \<open>None\<close> when an exception reaches
  the \<open>catch\<close>.\<close>

definition try_block :: "numstr \<Rightarrow> net \<Rightarrow> string list \<Rightarrow> response option \<times> url list" where
  "try_block ns net placeIds =
     (let (universeMap, infoData, iconData, calls) = fetch_stage ns net placeIds
      in (case gameInfo_of ns infoData of
            None \<Rightarrow> (None, calls)
          | Some gameInfo \<Rightarrow>
              (case gameIcons_of ns iconData of
                 None \<Rightarrow> (None, calls)
               | Some gameIcons \<Rightarrow>
                   (let (out, tot) = join_loop universeMap gameInfo gameIcons placeIds [] 0
                    in (Some (json_response 200
                                (Success out (num_String ns (Fin (of_int tot))) (length out))),
                        calls)))))"

definition gamesData ::
  "numstr \<Rightarrow> net \<Rightarrow> int \<Rightarrow> 'a request_scheme \<Rightarrow> rate_state \<Rightarrow> response \<times> url list \<times> rate_state" where
  "gamesData ns net now req rateState =
     (if req_method req = ''OPTIONS'' then (json_response 204 Empty, [], rateState)
      else if req_method req \<noteq> ''GET'' then
        (json_response 405 (Failure ''Method not allowed'' None), [], rateState)
      else
        (let ip = getClientIp req;
             (admitted, rateState') = rateLimit now ip 30 60 rateState
         in if \<not> admitted then
              (json_response 429 (Failure ''Rate limit exceeded. Please try again later.'' (Some 429)),
               [], rateState')
            else
              (let placeIds = validatePlaceIds (or_empty (ids_param req))
               in if placeIds = [] then
                    (json_response 400
                       (Failure ''No valid place IDs provided. IDs must be numeric.'' (Some 400)),
                     [], rateState')
                  else
                    (case try_block ns net placeIds of
                       (Some r, calls) \<Rightarrow> (r, calls, rateState')
                     | (None, calls) \<Rightarrow>
                         (json_response 500
                            (Failure ''An error occurred while fetching game data. Please try again.''
                               (Some 500)),
                          calls, rateState')))))"

section \<open>The admin gate\<close>

text \<open>
  The environment variables the gate reads, and a request with the two further headers it
  reads. \<open>jwtVerify\<close> (of the library \<open>jose\<close>) and \<open>decodeURIComponent\<close> are parameters:
  \<open>jwtVerify token secret\<close> is the payload when the token verifies at the time of the call,
  and \<open>decode s\<close> is \<open>None\<close> when \<open>decodeURIComponent\<close> throws.
\<close>

record admin_env =
  ADMIN_ALLOWLIST :: "string option"
  ADMIN_JWT_SECRET :: "string option"

record admin_request = request +
  cookie :: "string option"
  x_csrf_token :: "string option"

definition COOKIE_NAME :: string where
  "COOKIE_NAME = ''yd_admin''"

definition CSRF_COOKIE :: string where
  "CSRF_COOKIE = ''yd_csrf''"

definition parseAllowlist :: "admin_env \<Rightarrow> string list" where
  "parseAllowlist env =
     filter (\<lambda>s. s \<noteq> []) (map js_trim (js_split (CHR '','') (or_empty (ADMIN_ALLOWLIST env))))"

definition isIpAllowed :: "admin_env \<Rightarrow> 'a request_scheme \<Rightarrow> bool" where
  "isIpAllowed env req =
     (let ip = getClientIp req;
          allow = parseAllowlist env
      in if allow = [] then False
         else ip \<in> set allow \<or> ''::1'' \<in> set allow \<or> ''127.0.0.1'' \<in> set allow)"

definition getJwtSecret :: "admin_env \<Rightarrow> string option" where
  "getJwtSecret env =
     (case present (ADMIN_JWT_SECRET env) of
        None \<Rightarrow> None
      | Some secret \<Rightarrow> if length secret < 16 then None else Some secret)"

text \<open>\<open>parseCookies\<close>: \<open>None\<close> when \<open>decodeURIComponent\<close> throws. \<open>out\<close> is a plain object and
  the values are strings, so an assignment under \<open>__proto__\<close> is ignored.\<close>

fun cookie_loop ::
  "(string \<Rightarrow> string option) \<Rightarrow> string list \<Rightarrow> (string \<rightharpoonup> string) \<Rightarrow> (string \<rightharpoonup> string) option" where
  "cookie_loop decode [] out = Some out"
| "cookie_loop decode (part # parts) out =
     (let kv = js_split (CHR ''='') (js_trim part);
          k = hd kv;
          rest = tl kv
      in if k = [] then cookie_loop decode parts out
         else (case decode (js_join ''='' rest) of
                 None \<Rightarrow> None
               | Some v \<Rightarrow> cookie_loop decode parts (if k = ''__proto__'' then out else out(k \<mapsto> v))))"

definition parseCookies ::
  "(string \<Rightarrow> string option) \<Rightarrow> 'a admin_request_scheme \<Rightarrow> (string \<rightharpoonup> string) option" where
  "parseCookies decode req =
     cookie_loop decode (js_split (CHR '';'') (or_empty (cookie req))) Map.empty"

text \<open>The result of \<open>requireAdmin\<close>: \<open>{ok: false, reason}\<close> or \<open>{ok: true, payload, csrf}\<close>;
  \<open>None\<close> when the promise rejects (the cookies are parsed outside the \<open>try\<close>).\<close>

datatype 'p auth = Denied string | Granted 'p "string option"

definition requireAdmin ::
  "(string \<Rightarrow> string \<Rightarrow> 'p option) \<Rightarrow> (string \<Rightarrow> string option) \<Rightarrow> admin_env
   \<Rightarrow> 'a admin_request_scheme \<Rightarrow> 'p auth option" where
  "requireAdmin jwtVerify decode env req =
     (if \<not> isIpAllowed env req then Some (Denied ''ip'')
      else (case getJwtSecret env of
              None \<Rightarrow> Some (Denied ''secret'')
            | Some secret \<Rightarrow>
                (case parseCookies decode req of
                   None \<Rightarrow> None
                 | Some cookies \<Rightarrow>
                     (case present (cookies COOKIE_NAME) of
                        None \<Rightarrow> Some (Denied ''token'')
                      | Some token \<Rightarrow>
                          (case jwtVerify token secret of
                             None \<Rightarrow> Some (Denied ''invalid'')
                           | Some payload \<Rightarrow>
                               Some (Granted payload (present (cookies CSRF_COOKIE))))))))"

text \<open>
  \<open>requireAdminOr404\<close> returns \<open>{ok, ended, auth}\<close> and may have sent a response with
  \<open>json\<close>: the second component is that response, \<open>None\<close> when nothing was written to
  \<open>res\<close>.
\<close>

record 'p gate =
  gate_ok :: bool
  gate_ended :: bool
  gate_auth :: "'p auth"

definition is_write :: "string \<Rightarrow> bool" where
  "is_write m = (m = ''POST'' \<or> m = ''PUT'' \<or> m = ''DELETE'' \<or> m = ''PATCH'')"

definition requireAdminOr404 ::
  "(string \<Rightarrow> string \<Rightarrow> 'p option) \<Rightarrow> (string \<Rightarrow> string option) \<Rightarrow> admin_env
   \<Rightarrow> 'a admin_request_scheme \<Rightarrow> bool \<Rightarrow> ('p gate \<times> response option) option" where
  "requireAdminOr404 jwtVerify decode env req requireCsrfForWrite =
     (case requireAdmin jwtVerify decode env req of
        None \<Rightarrow> None
      | Some (Denied reason) \<Rightarrow>
          Some (\<lparr>gate_ok = False, gate_ended = True, gate_auth = Denied reason\<rparr>, None)
      | Some (Granted payload csrf) \<Rightarrow>
          (let method = (if req_method req = [] then ''GET'' else req_method req);
               isWrite = is_write method
           in if requireCsrfForWrite \<and> isWrite
                 \<and> (present (x_csrf_token req) = None \<or> x_csrf_token req \<noteq> csrf) then
                Some (\<lparr>gate_ok = False, gate_ended = True, gate_auth = Granted payload csrf\<rparr>,
                      Some (json_response 403 (Failure ''Invalid CSRF token'' None)))
              else Some (\<lparr>gate_ok = True, gate_ended = False, gate_auth = Granted payload csrf\<rparr>,
                         None)))"

text \<open>
  The first lines of the two gated handlers (\<open>admin/pricing\<close>, \<open>admin/reviews\<close>): the handler
  returns, with the response that has been sent if any, or goes on to the database.
\<close>

datatype gated = Returned "response option" | Proceeds

definition admin_handler_gate ::
  "(string \<Rightarrow> string \<Rightarrow> 'p option) \<Rightarrow> (string \<Rightarrow> string option) \<Rightarrow> admin_env
   \<Rightarrow> 'a admin_request_scheme \<Rightarrow> gated option" where
  "admin_handler_gate jwtVerify decode env req =
     (case requireAdminOr404 jwtVerify decode env req True of
        None \<Rightarrow> None
      | Some (gate, sent) \<Rightarrow>
          if \<not> gate_ok gate then
            (if gate_ended gate then Some (Returned sent)
             else Some (Returned (Some (json_response 404 (ErrorOnly ''Not Found'')))))
          else Some Proceeds)"

text \<open>The handler of \<open>admin/page-login.js\<close>.\<close>

definition page_login :: "admin_env \<Rightarrow> 'a request_scheme \<Rightarrow> response" where
  "page_login env req =
     (if \<not> isIpAllowed env req then
        \<lparr>status = 404, body = Html ''<!doctype html><title>404 Not Found</title><h1>Not Found</h1>''\<rparr>
      else \<lparr>status = 200, body = LoginPage\<rparr>)"

section \<open>The records and the totals of a response\<close>

text \<open>The record of one retained identifier: the identifier, its entry of the universe
  map, and the name, visit count and icon found under that entry, \<open>null\<close> where the lookup
  map has none.\<close>

definition join_record ::
  "(string \<times> string) list \<Rightarrow> (string \<rightharpoonup> info) \<Rightarrow> icons \<Rightarrow> string \<Rightarrow> result_record" where
  "join_record universeMap gameInfo gameIcons pid =
     \<lparr>inputId = pid,
      universeId = map_of universeMap pid,
      name = info_name (info_lookup gameInfo (key_of (map_of universeMap pid))),
      visits = info_visits (info_lookup gameInfo (key_of (map_of universeMap pid))),
      icon = icon_lookup gameIcons (key_of (map_of universeMap pid))\<rparr>"

text \<open>The sum, over the records whose visit count is a finite number, of the floor of the
  count.\<close>

definition floor_total :: "result_record list \<Rightarrow> int" where
  "floor_total rows =
     sum_list (map (\<lambda>r. Math_floor (visits r)) (filter (\<lambda>r. finite_number (visits r)) rows))"

text \<open>The total as the specification words it: the integer truncation of a count is the
  count rounded toward zero.\<close>

fun truncation :: "json \<Rightarrow> int" where
  "truncation (JNum (Fin q)) = (if q < 0 then \<lceil>q\<rceil> else \<lfloor>q\<rfloor>)"
| "truncation _ = 0"

definition truncated_total :: "result_record list \<Rightarrow> int" where
  "truncated_total rows =
     sum_list (map (\<lambda>r. truncation (visits r)) (filter (\<lambda>r. finite_number (visits r)) rows))"

text \<open>A visit count that is not a negative number.\<close>

fun non_negative :: "json \<Rightarrow> bool" where
  "non_negative (JNum (Fin q)) = (0 \<le> q)"
| "non_negative _ = True"

section \<open>The outbound calls, one by one\<close>

text \<open>What \<open>fetchJson\<close> makes of the outcome of a call: the parsed body of a 2xx response,
  \<open>null\<close> otherwise.\<close>

definition answer :: "outcome \<Rightarrow> json" where
  "answer oc =
     (case oc of
        Rejected _ \<Rightarrow> JNull
      | Responded st parsed \<Rightarrow> if 200 \<le> st \<and> st \<le> 299 then or_null parsed else JNull)"

text \<open>The canonical identifier that the lookup of \<open>pid\<close> yields when it is the outbound call
  number \<open>n\<close>, and the results of looking up a list of identifiers one after the other.\<close>

definition resolved :: "numstr \<Rightarrow> net \<Rightarrow> nat \<Rightarrow> string \<Rightarrow> string" where
  "resolved ns net n pid = universe_of_data ns pid (answer (net n (place_url pid)))"

fun resolutions :: "numstr \<Rightarrow> net \<Rightarrow> nat \<Rightarrow> string list \<Rightarrow> string list" where
  "resolutions ns net n [] = []"
| "resolutions ns net n (pid # pids) = resolved ns net n pid # resolutions ns net (Suc n) pids"

section \<open>Example inputs\<close>

text \<open>An address with thirty admitted timestamps at clock value \<open>0\<close>.\<close>

definition full_bucket :: rate_state where
  "full_bucket = [''198.51.100.7'' \<mapsto> replicate 30 0]"

text \<open>A text for the numbers that are not small integers, a network that is down, and four
  requests.\<close>

definition ns_plain :: numstr where
  "ns_plain q = ''0.5''"

definition net_down :: net where
  "net_down n u = Rejected NetworkError"

definition req_no_valid_ids :: request where
  "req_no_valid_ids =
     \<lparr>req_method = ''GET'', x_forwarded_for = None, x_real_ip = None,
      remoteAddress = Some ''192.0.2.44'', ids_param = Some ''abc, ,12x,-5''\<rparr>"

definition req_forwarded :: request where
  "req_forwarded =
     \<lparr>req_method = ''GET'', x_forwarded_for = Some '' 198.51.100.7 , 10.0.0.1'',
      x_real_ip = Some ''10.0.0.2'', remoteAddress = Some ''10.0.0.3'', ids_param = Some ''1818''\<rparr>"

definition req_real_ip :: request where
  "req_real_ip =
     \<lparr>req_method = ''GET'', x_forwarded_for = Some [], x_real_ip = Some ''198.51.100.8 '',
      remoteAddress = Some ''10.0.0.3'', ids_param = Some ''1818''\<rparr>"

definition req_peer :: request where
  "req_peer =
     \<lparr>req_method = ''GET'', x_forwarded_for = None, x_real_ip = None,
      remoteAddress = Some ''198.51.100.9'', ids_param = Some ''1818''\<rparr>"

text \<open>An upstream that knows two places, and whose metadata and icon answers are fixed.\<close>

definition sample_games :: json where
  "sample_games =
     JObj [(''data'', JArr
       [JObj [(''id'', JNum (Fin 9001)), (''name'', JStr ''Alpha''), (''visits'', JNum (Fin 100))],
        JObj [(''id'', JNum (Fin 9002)), (''name'', JStr ''Beta''), (''visits'', JStr ''bad'')]])]"

definition sample_icons :: json where
  "sample_icons =
     JObj [(''data'', JArr
       [JObj [(''targetId'', JNum (Fin 9001)), (''imageUrl'', JStr ''https://t.example/a.png'')]])]"

definition net_sample :: net where
  "net_sample n u =
     (if u = place_url ''123'' then Responded 200 (Some (JObj [(''universeId'', JNum (Fin 9001))]))
      else if u = place_url ''456'' then Responded 200 (Some (JObj [(''universeId'', JStr ''9002'')]))
      else if url_host u = ''games.roblox.com'' then Responded 200 (Some sample_games)
      else if url_host u = ''thumbnails.roblox.com'' then Responded 200 (Some sample_icons)
      else Responded 404 None)"

definition req_sample :: request where
  "req_sample =
     \<lparr>req_method = ''GET'', x_forwarded_for = None, x_real_ip = None,
      remoteAddress = Some ''192.0.2.44'', ids_param = Some ''456, 123,123,789''\<rparr>"

text \<open>The records of the sample request.\<close>

definition sample_rows :: "result_record list" where
  "sample_rows =
     [\<lparr>inputId = ''456'', universeId = Some ''9002'', name = JStr ''Beta'', visits = JStr ''bad'',
       icon = JNull\<rparr>,
      \<lparr>inputId = ''123'', universeId = Some ''9001'', name = JStr ''Alpha'', visits = JNum (Fin 100),
       icon = JStr ''https://t.example/a.png''\<rparr>,
      \<lparr>inputId = ''123'', universeId = Some ''9001'', name = JStr ''Alpha'', visits = JNum (Fin 100),
       icon = JStr ''https://t.example/a.png''\<rparr>,
      \<lparr>inputId = ''789'', universeId = Some ''789'', name = JNull, visits = JNull, icon = JNull\<rparr>]"

text \<open>An upstream whose lookups time out and whose metadata holds a negative fractional visit
  count.\<close>

definition negative_games :: json where
  "negative_games =
     JObj [(''data'', JArr
       [JObj [(''id'', JStr ''7''), (''name'', JStr ''N''), (''visits'', JNum (Fin (- 3 / 2)))]])]"

definition net_negative :: net where
  "net_negative n u =
     (if url_host u = ''games.roblox.com'' then Responded 200 (Some negative_games)
      else Rejected TimedOut)"

definition req_seven :: request where
  "req_seven =
     \<lparr>req_method = ''GET'', x_forwarded_for = None, x_real_ip = None,
      remoteAddress = Some ''192.0.2.44'', ids_param = Some ''7''\<rparr>"

definition negative_rows :: "result_record list" where
  "negative_rows =
     [\<lparr>inputId = ''7'', universeId = Some ''7'', name = JStr ''N'',
       visits = JNum (Fin (- 3 / 2)), icon = JNull\<rparr>]"

text \<open>A URL outside the allowed hosts, and a request for two places.\<close>

definition url_elsewhere :: url where
  "url_elsewhere = Url ''roblox.com.example.net'' ''/v1/games?universeIds=1''"

definition req_two :: request where
  "req_two =
     \<lparr>req_method = ''GET'', x_forwarded_for = None, x_real_ip = None,
      remoteAddress = Some ''192.0.2.44'', ids_param = Some ''31,7''\<rparr>"

text \<open>A verifier that accepts one token under one secret, a decoder that never throws, two
  environments (the second with the allow-list of the deployment notes) and three requests
  that carry the session cookie.\<close>

definition verify_tok :: "string \<Rightarrow> string \<Rightarrow> string option" where
  "verify_tok token secret =
     (if token = ''tok'' \<and> secret = ''0123456789abcdef0123456789abcdef'' then Some ''admin''
      else None)"

definition decode_plain :: "string \<Rightarrow> string option" where
  "decode_plain s = Some s"

definition env_office :: admin_env where
  "env_office =
     \<lparr>ADMIN_ALLOWLIST = Some ''203.0.113.5'',
      ADMIN_JWT_SECRET = Some ''0123456789abcdef0123456789abcdef''\<rparr>"

definition env_notes :: admin_env where
  "env_notes =
     \<lparr>ADMIN_ALLOWLIST = Some ''154.238.160.118,127.0.0.1'',
      ADMIN_JWT_SECRET = Some ''0123456789abcdef0123456789abcdef''\<rparr>"

definition req_admin_post :: admin_request where
  "req_admin_post =
     \<lparr>req_method = ''POST'', x_forwarded_for = None, x_real_ip = None,
      remoteAddress = Some ''203.0.113.5'', ids_param = None,
      cookie = Some ''yd_admin=tok; yd_csrf=c1'', x_csrf_token = Some ''zzz''\<rparr>"

definition req_admin_get :: admin_request where
  "req_admin_get =
     \<lparr>req_method = ''GET'', x_forwarded_for = None, x_real_ip = None,
      remoteAddress = Some ''203.0.113.5'', ids_param = None,
      cookie = Some ''yd_admin=tok; yd_csrf=c1'', x_csrf_token = None\<rparr>"

definition req_outsider :: admin_request where
  "req_outsider =
     \<lparr>req_method = ''GET'', x_forwarded_for = Some ''203.0.113.50'', x_real_ip = None,
      remoteAddress = Some ''10.0.0.3'', ids_param = None,
      cookie = Some ''yd_admin=tok; yd_csrf=c1'', x_csrf_token = None\<rparr>"

text \<open>An upstream whose metadata names an identifier that \<open>String\<close> cannot convert, and whose
  icon answer assigns an object under \<open>__proto__\<close>.\<close>

definition hostile_games :: json where
  "hostile_games =
     JObj [(''data'', JArr [JObj [(''id'', JObj [(''toString'', JNum (Fin 1))])]])]"

definition inherited_icons :: json where
  "inherited_icons =
     JObj [(''data'', JArr
       [JObj [(''targetId'', JStr ''__proto__''), (''imageUrl'', JObj [(''7'', JStr ''x'')])]])]"

definition net_hostile :: net where
  "net_hostile n u =
     (if url_host u = ''games.roblox.com'' then Responded 200 (Some hostile_games)
      else if url_host u = ''thumbnails.roblox.com'' then Responded 200 (Some inherited_icons)
      else Rejected NetworkError)"

section \<open>The rate limiter\<close>

lemma rateLimit_bucket:
  "bucket_of (snd (rateLimit now ip limit w rs)) k =
     (if k = ip then
        (if limit \<le> length (filter (\<lambda>t. now - t < w * 1000) (bucket_of rs ip))
         then filter (\<lambda>t. now - t < w * 1000) (bucket_of rs ip)
         else filter (\<lambda>t. now - t < w * 1000) (bucket_of rs ip) @ [now])
      else bucket_of rs k)"
  by (simp add: rateLimit_def bucket_of_def Let_def)

lemma rateLimit_verdict:
  "fst (rateLimit now ip limit w rs) =
     (length (filter (\<lambda>t. now - t < w * 1000) (bucket_of rs ip)) < limit)"
  by (auto simp add: rateLimit_def bucket_of_def Let_def)

lemma rateLimit_keeps_bound:
  assumes "\<And>k. length (bucket_of rs k) \<le> 30"
  shows "length (bucket_of (snd (rateLimit now ip 30 60 rs)) k) \<le> 30"
proof -
  have "length (filter (\<lambda>t. now - t < 60 * 1000) (bucket_of rs ip)) \<le> 30"
    using assms[of ip] length_filter_le[of _ "bucket_of rs ip"] by (meson order_trans)
  then show ?thesis
    using assms[of k] by (simp add: rateLimit_bucket)
qed

lemma rate_run_keeps_bound:
  "(\<And>k. length (bucket_of rs k) \<le> 30) \<Longrightarrow> length (bucket_of (rate_run cs rs) k) \<le> 30"
proof (induction cs arbitrary: rs k)
  case Nil
  then show ?case by simp
next
  case (Cons c cs)
  obtain now ip where c: "c = (now, ip)" by (cases c)
  show ?case
    unfolding c rate_run.simps
    by (rule Cons.IH) (rule rateLimit_keeps_bound, rule Cons.prems)
qed

lemma denied_run_bucket:
  "all_denied ts ip rs \<Longrightarrow>
   \<exists>P. bucket_of (rate_run (map (\<lambda>t. (t, ip)) ts) rs) ip = filter P (bucket_of rs ip)"
proof (induction ts arbitrary: rs)
  case Nil
  have "bucket_of rs ip = filter (\<lambda>_. True) (bucket_of rs ip)" by simp
  then show ?case by (metis list.simps(8) rate_run.simps(1))
next
  case (Cons t ts)
  let ?rs = "snd (rateLimit t ip 30 60 rs)"
  from Cons.prems have d: "\<not> fst (rateLimit t ip 30 60 rs)" and r: "all_denied ts ip ?rs"
    by simp_all
  from Cons.IH[OF r] obtain P where
    P: "bucket_of (rate_run (map (\<lambda>t. (t, ip)) ts) ?rs) ip = filter P (bucket_of ?rs ip)" by blast
  from d have "bucket_of ?rs ip = filter (\<lambda>x. t - x < 60 * 1000) (bucket_of rs ip)"
    by (simp add: rateLimit_bucket rateLimit_verdict)
  with P have "bucket_of (rate_run (map (\<lambda>t. (t, ip)) (t # ts)) rs) ip
      = filter (\<lambda>x. t - x < 60 * 1000 \<and> P x) (bucket_of rs ip)"
    by simp
  then show ?case by blast
qed

lemma length_filter_filter_le: "length (filter Q (filter P xs)) \<le> length (filter Q xs)"
  by (induction xs) (auto simp: le_SucI)

lemma denied_run_no_extension:
  assumes "all_denied ts ip rs" and "fst (rateLimit now ip 30 60 rs)"
  shows "fst (rateLimit now ip 30 60 (rate_run (map (\<lambda>t. (t, ip)) ts) rs))"
proof -
  from denied_run_bucket[OF assms(1)] obtain P where
    P: "bucket_of (rate_run (map (\<lambda>t. (t, ip)) ts) rs) ip = filter P (bucket_of rs ip)" by blast
  have "length (filter (\<lambda>t. now - t < 60 * 1000) (filter P (bucket_of rs ip)))
        \<le> length (filter (\<lambda>t. now - t < 60 * 1000) (bucket_of rs ip))"
    by (rule length_filter_filter_le)
  with assms(2) show ?thesis by (simp add: rateLimit_verdict P)
qed

text \<open>
  Claim C10. Started from the empty map and driven by any sequence of calls
  \<open>rateLimit(ip, 30, 60)\<close>, every bucket holds at most thirty timestamps, and one call keeps
  that bound. A denied call stores the bucket pruned to the window and nothing else: the
  clock value of the denied call is not recorded, and the other buckets are untouched. A
  sequence of denied calls of one address never turns a later admission of that address
  into a denial.
\<close>

theorem C10_bucket_bound:
  "length (bucket_of (rate_run cs Map.empty) k) \<le> 30
   \<and> ((\<forall>a. length (bucket_of rs a) \<le> 30)
        \<longrightarrow> length (bucket_of (snd (rateLimit now ip 30 60 rs)) k) \<le> 30)
   \<and> (\<not> fst (rateLimit now ip 30 60 rs)
        \<longrightarrow> snd (rateLimit now ip 30 60 rs)
              = rs(ip \<mapsto> filter (\<lambda>t. now - t < 60000) (bucket_of rs ip)))
   \<and> (all_denied ts ip rs \<longrightarrow> fst (rateLimit later ip 30 60 rs)
        \<longrightarrow> fst (rateLimit later ip 30 60 (rate_run (map (\<lambda>t. (t, ip)) ts) rs)))"
proof (intro conjI impI)
  show "length (bucket_of (rate_run cs Map.empty) k) \<le> 30"
    by (rule rate_run_keeps_bound) (simp add: bucket_of_def)
next
  assume "\<forall>a. length (bucket_of rs a) \<le> 30"
  then show "length (bucket_of (snd (rateLimit now ip 30 60 rs)) k) \<le> 30"
    by (intro rateLimit_keeps_bound) simp
next
  assume "\<not> fst (rateLimit now ip 30 60 rs)"
  then show "snd (rateLimit now ip 30 60 rs)
              = rs(ip \<mapsto> filter (\<lambda>t. now - t < 60000) (bucket_of rs ip))"
    by (simp add: rateLimit_def bucket_of_def Let_def split: if_splits)
next
  assume "all_denied ts ip rs" "fst (rateLimit later ip 30 60 rs)"
  then show "fst (rateLimit later ip 30 60 (rate_run (map (\<lambda>t. (t, ip)) ts) rs))"
    by (rule denied_run_no_extension)
qed

lemma full_bucket_bound: "length (bucket_of full_bucket a) \<le> 30"
  by (simp add: full_bucket_def bucket_of_def)

lemma full_bucket_denied: "all_denied [1000, 2000] ''198.51.100.7'' full_bucket"
  by (simp add: full_bucket_def rateLimit_def Let_def)

lemma full_bucket_later: "fst (rateLimit 60000 ''198.51.100.7'' 30 60 full_bucket)"
  by (simp add: full_bucket_def rateLimit_def Let_def)

theorem C10_bucket_bound_witness:
  "(\<forall>a. length (bucket_of full_bucket a) \<le> 30)
   \<and> \<not> fst (rateLimit 1000 ''198.51.100.7'' 30 60 full_bucket)
   \<and> all_denied [1000, 2000] ''198.51.100.7'' full_bucket
   \<and> fst (rateLimit 60000 ''198.51.100.7'' 30 60 full_bucket)
   \<and> length (bucket_of (snd (rateLimit 1000 ''198.51.100.7'' 30 60 full_bucket)) ''198.51.100.7'') \<le> 30
   \<and> snd (rateLimit 1000 ''198.51.100.7'' 30 60 full_bucket)
       = full_bucket(''198.51.100.7'' \<mapsto> filter (\<lambda>t. 1000 - t < 60000) (bucket_of full_bucket ''198.51.100.7''))
   \<and> fst (rateLimit 60000 ''198.51.100.7'' 30 60
            (rate_run (map (\<lambda>t. (t, ''198.51.100.7'')) [1000, 2000]) full_bucket))"
proof -
  have b: "\<forall>a. length (bucket_of full_bucket a) \<le> 30"
    by (simp add: full_bucket_bound)
  have d1: "\<not> fst (rateLimit 1000 ''198.51.100.7'' 30 60 full_bucket)"
    using full_bucket_denied by simp
  note d = full_bucket_denied
  note l = full_bucket_later
  from C10_bucket_bound[of "[]" "''198.51.100.7''" full_bucket 1000 "''198.51.100.7''" "[1000, 2000]" 60000]
  show ?thesis using b d1 d l by blast
qed

section \<open>The handler, branch by branch\<close>

lemma floor_total_Nil: "floor_total [] = 0"
  by (simp add: floor_total_def)

lemma floor_total_Cons:
  "floor_total (r # rows) =
     (if finite_number (visits r) then Math_floor (visits r) else 0) + floor_total rows"
  by (simp add: floor_total_def)

lemma join_loop_eq:
  "join_loop um gi gc pids out tot =
     (out @ map (join_record um gi gc) pids, tot + floor_total (map (join_record um gi gc) pids))"
proof (induction pids arbitrary: out tot)
  case Nil
  show ?case by (simp add: floor_total_Nil)
next
  case (Cons pid pids)
  show ?case
    by (simp add: Let_def Cons.IH floor_total_Cons join_record_def)
qed

lemma try_block_success:
  assumes "fetch_stage ns net placeIds = (um, infoData, iconData, calls)"
    and "gameInfo_of ns infoData = Some gi"
    and "gameIcons_of ns iconData = Some gc"
  shows "try_block ns net placeIds =
     (Some (json_response 200
        (Success (map (join_record um gi gc) placeIds)
           (num_String ns (Fin (of_int (floor_total (map (join_record um gi gc) placeIds)))))
           (length placeIds))), calls)"
  using assms by (simp add: try_block_def join_loop_eq)

lemma try_block_rows:
  "fst (try_block ns net placeIds) = Some r \<Longrightarrow> body r = Success rows t c \<Longrightarrow> length rows = length placeIds"
  by (auto simp add: try_block_def join_loop_eq json_response_def split: prod.splits option.splits)

lemma gamesData_options:
  "req_method req = ''OPTIONS'' \<Longrightarrow> gamesData ns net now req rs = (json_response 204 Empty, [], rs)"
  by (simp add: gamesData_def)

lemma gamesData_other:
  "req_method req \<noteq> ''OPTIONS'' \<Longrightarrow> req_method req \<noteq> ''GET'' \<Longrightarrow>
   gamesData ns net now req rs = (json_response 405 (Failure ''Method not allowed'' None), [], rs)"
  by (simp add: gamesData_def)

lemma gamesData_denied:
  "req_method req = ''GET'' \<Longrightarrow> \<not> fst (rateLimit now (getClientIp req) 30 60 rs) \<Longrightarrow>
   gamesData ns net now req rs =
     (json_response 429 (Failure ''Rate limit exceeded. Please try again later.'' (Some 429)), [],
      snd (rateLimit now (getClientIp req) 30 60 rs))"
  by (simp add: gamesData_def Let_def split_beta split: prod.splits option.splits)

lemma gamesData_no_ids:
  "req_method req = ''GET'' \<Longrightarrow> fst (rateLimit now (getClientIp req) 30 60 rs) \<Longrightarrow>
   validatePlaceIds (or_empty (ids_param req)) = [] \<Longrightarrow>
   gamesData ns net now req rs =
     (json_response 400 (Failure ''No valid place IDs provided. IDs must be numeric.'' (Some 400)), [],
      snd (rateLimit now (getClientIp req) 30 60 rs))"
  by (simp add: gamesData_def Let_def split_beta split: prod.splits option.splits)

lemma gamesData_try:
  "req_method req = ''GET'' \<Longrightarrow> fst (rateLimit now (getClientIp req) 30 60 rs) \<Longrightarrow>
   validatePlaceIds (or_empty (ids_param req)) \<noteq> [] \<Longrightarrow>
   gamesData ns net now req rs =
     (case try_block ns net (validatePlaceIds (or_empty (ids_param req))) of
        (Some r, calls) \<Rightarrow> (r, calls, snd (rateLimit now (getClientIp req) 30 60 rs))
      | (None, calls) \<Rightarrow>
          (json_response 500
             (Failure ''An error occurred while fetching game data. Please try again.'' (Some 500)),
           calls, snd (rateLimit now (getClientIp req) 30 60 rs)))"
  by (simp add: gamesData_def Let_def split_beta split: prod.splits option.splits)

lemma gamesData_success_rows:
  assumes "body (fst (gamesData ns net now req rs)) = Success rows t c"
  shows "req_method req = ''GET'' \<and> fst (rateLimit now (getClientIp req) 30 60 rs)
         \<and> validatePlaceIds (or_empty (ids_param req)) \<noteq> []
         \<and> length rows = length (validatePlaceIds (or_empty (ids_param req)))"
proof -
  have m: "req_method req = ''GET''"
    using assms by (cases "req_method req = ''OPTIONS''"; cases "req_method req = ''GET''")
      (simp_all add: gamesData_options gamesData_other json_response_def)
  have a: "fst (rateLimit now (getClientIp req) 30 60 rs)"
    using assms m by (cases "fst (rateLimit now (getClientIp req) 30 60 rs)")
      (simp_all add: gamesData_denied json_response_def)
  have n: "validatePlaceIds (or_empty (ids_param req)) \<noteq> []"
    using assms m a by (cases "validatePlaceIds (or_empty (ids_param req)) = []")
      (simp_all add: gamesData_no_ids json_response_def)
  obtain r' calls where tb: "try_block ns net (validatePlaceIds (or_empty (ids_param req))) = (r', calls)"
    by (cases "try_block ns net (validatePlaceIds (or_empty (ids_param req)))")
  show ?thesis
  proof (cases r')
    case None
    with assms m a n tb show ?thesis by (simp add: gamesData_try json_response_def)
  next
    case (Some r)
    with assms m a n tb have "body r = Success rows t c" by (simp add: gamesData_try)
    moreover from tb Some have "fst (try_block ns net (validatePlaceIds (or_empty (ids_param req)))) = Some r" by simp
    ultimately have "length rows = length (validatePlaceIds (or_empty (ids_param req)))"
      by (rule try_block_rows[rotated])
    with m a n show ?thesis by simp
  qed
qed

section \<open>Identifier validation and the gates of the handler\<close>

lemma js_split_nonempty: "js_split c s \<noteq> []"
  by (induction s) (simp_all split: list.splits)

lemma validate_loop_take:
  "length out < 20 \<Longrightarrow>
   validate_loop raw out = take 20 (out @ filter re_digits_1_20 (map js_trim raw))"
proof (induction raw arbitrary: out)
  case Nil
  then show ?case by simp
next
  case (Cons r raw)
  show ?case
  proof (cases "re_digits_1_20 (js_trim r)")
    case False
    with Cons show ?thesis by simp
  next
    case True
    show ?thesis
    proof (cases "length out = 19")
      case full: True
      then show ?thesis using True by (simp add: Let_def)
    next
      case False
      then have "length (out @ [js_trim r]) < 20" using Cons.prems by simp
      from Cons.IH[OF this] show ?thesis using True False Cons.prems by (simp add: Let_def)
    qed
  qed
qed

lemma validatePlaceIds_spec: "validatePlaceIds idsStr = spec_retained idsStr"
proof (cases "idsStr = []")
  case True
  then show ?thesis
    by (simp add: validatePlaceIds_def spec_retained_def re_digits_1_20_def js_trim_def)
next
  case False
  then show ?thesis
    by (simp add: validatePlaceIds_def spec_retained_def validate_loop_take)
qed

text \<open>
  Claim C3. For every \<open>ids\<close> string, \<open>validatePlaceIds\<close> returns the list the specification
  describes: the string split on commas, each token trimmed, the tokens of one to twenty
  digits kept in order, cut after the first twenty; a token that is dropped changes
  nothing else. A \<open>GET\<close> request that the rate limiter admits and whose retained list is
  empty is answered 400 with the error text, without any outbound call, and no request at
  all is answered with a success whose data array is empty.
\<close>

theorem C3_retained_identifiers:
  "validatePlaceIds idsStr = spec_retained idsStr
   \<and> (req_method req = ''GET'' \<longrightarrow> fst (rateLimit now (getClientIp req) 30 60 rs)
        \<longrightarrow> validatePlaceIds (or_empty (ids_param req)) = []
        \<longrightarrow> fst (gamesData ns net now req rs)
              = json_response 400
                  (Failure ''No valid place IDs provided. IDs must be numeric.'' (Some 400))
            \<and> fst (snd (gamesData ns net now req rs)) = [])
   \<and> body (fst (gamesData ns net now req rs)) \<noteq> Success [] t c"
proof (intro conjI impI)
  show "validatePlaceIds idsStr = spec_retained idsStr"
    by (rule validatePlaceIds_spec)
next
  assume "req_method req = ''GET''" "fst (rateLimit now (getClientIp req) 30 60 rs)"
    "validatePlaceIds (or_empty (ids_param req)) = []"
  then have g: "gamesData ns net now req rs =
     (json_response 400 (Failure ''No valid place IDs provided. IDs must be numeric.'' (Some 400)), [],
      snd (rateLimit now (getClientIp req) 30 60 rs))"
    by (rule gamesData_no_ids)
  show "fst (gamesData ns net now req rs)
      = json_response 400 (Failure ''No valid place IDs provided. IDs must be numeric.'' (Some 400))"
    by (simp add: g)
  show "fst (snd (gamesData ns net now req rs)) = []"
    by (simp add: g)
next
  show "body (fst (gamesData ns net now req rs)) \<noteq> Success [] t c"
  proof
    assume "body (fst (gamesData ns net now req rs)) = Success [] t c"
    from gamesData_success_rows[OF this] show False by simp
  qed
qed

lemma sample_retained:
  "spec_retained ''7, x,08 ,,123456789012345678901, 42'' = [''7'', ''08'', ''42'']"
  by (simp add: spec_retained_def js_trim_def is_ws_def re_digits_1_20_def is_digit_def)

lemma sample_cap:
  "spec_retained ''501,502,503,504,505,506,507,508,509,510,511,512,513,514,515,516,517,518,519,520,521,522''
     = [''501'', ''502'', ''503'', ''504'', ''505'', ''506'', ''507'', ''508'', ''509'', ''510'',
        ''511'', ''512'', ''513'', ''514'', ''515'', ''516'', ''517'', ''518'', ''519'', ''520'']"
  by (simp add: spec_retained_def js_trim_def is_ws_def re_digits_1_20_def is_digit_def)

lemma no_valid_ids_facts:
  "req_method req_no_valid_ids = ''GET''"
  "fst (rateLimit 0 (getClientIp req_no_valid_ids) 30 60 Map.empty)"
  "validatePlaceIds (or_empty (ids_param req_no_valid_ids)) = []"
    by (simp_all add: req_no_valid_ids_def rateLimit_def Let_def validatePlaceIds_def or_empty_def
        js_trim_def is_ws_def re_digits_1_20_def is_digit_def)

theorem C3_retained_identifiers_witness:
  "validatePlaceIds ''7, x,08 ,,123456789012345678901, 42'' = [''7'', ''08'', ''42'']
   \<and> validatePlaceIds ''501,502,503,504,505,506,507,508,509,510,511,512,513,514,515,516,517,518,519,520,521,522''
       = [''501'', ''502'', ''503'', ''504'', ''505'', ''506'', ''507'', ''508'', ''509'', ''510'',
        ''511'', ''512'', ''513'', ''514'', ''515'', ''516'', ''517'', ''518'', ''519'', ''520'']
   \<and> req_method req_no_valid_ids = ''GET''
   \<and> fst (rateLimit 0 (getClientIp req_no_valid_ids) 30 60 Map.empty)
   \<and> validatePlaceIds (or_empty (ids_param req_no_valid_ids)) = []
   \<and> fst (gamesData ns_plain net_down 0 req_no_valid_ids Map.empty)
       = json_response 400 (Failure ''No valid place IDs provided. IDs must be numeric.'' (Some 400))
   \<and> fst (snd (gamesData ns_plain net_down 0 req_no_valid_ids Map.empty)) = []"
  using C3_retained_identifiers[of "''7, x,08 ,,123456789012345678901, 42''" req_no_valid_ids 0
      Map.empty ns_plain net_down "[]" 0]
    C3_retained_identifiers[of "''501,502,503,504,505,506,507,508,509,510,511,512,513,514,515,516,517,518,519,520,521,522''"
      req_no_valid_ids 0 Map.empty ns_plain net_down "[]" 0]
    no_valid_ids_facts sample_retained sample_cap
  by simp

text \<open>
  Claim C5. A \<open>GET\<close> request whose client address already has thirty timestamps inside the
  sixty-second window is answered 429 with the error envelope; the answer, the empty list
  of outbound calls and the stored bucket depend neither on the \<open>ids\<close> parameter nor on
  the network. The address is the trimmed first comma-separated value of
  \<open>x-forwarded-for\<close> when that header is a non-empty string, else the trimmed \<open>x-real-ip\<close>
  when that is one, else the peer address of the socket.
\<close>

theorem C5_rate_limit_gate:
  "(req_method req = ''GET''
      \<longrightarrow> 30 \<le> length (filter (\<lambda>t. now - t < 60000) (bucket_of rs (getClientIp req)))
      \<longrightarrow> gamesData ns net now req rs
            = (json_response 429
                 (Failure ''Rate limit exceeded. Please try again later.'' (Some 429)),
               [],
               rs(getClientIp req \<mapsto> filter (\<lambda>t. now - t < 60000) (bucket_of rs (getClientIp req)))))
   \<and> (x_forwarded_for req = Some xf \<longrightarrow> xf \<noteq> []
        \<longrightarrow> getClientIp req = js_trim (hd (js_split (CHR '','') xf)))
   \<and> (present (x_forwarded_for req) = None \<longrightarrow> x_real_ip req = Some xr \<longrightarrow> xr \<noteq> []
        \<longrightarrow> getClientIp req = js_trim xr)
   \<and> (present (x_forwarded_for req) = None \<longrightarrow> present (x_real_ip req) = None
        \<longrightarrow> remoteAddress req = Some a \<longrightarrow> a \<noteq> []
        \<longrightarrow> getClientIp req = a)"
proof (intro conjI impI)
  assume m: "req_method req = ''GET''"
    and f: "30 \<le> length (filter (\<lambda>t. now - t < 60000) (bucket_of rs (getClientIp req)))"
  from f have d: "\<not> fst (rateLimit now (getClientIp req) 30 60 rs)"
    by (simp add: rateLimit_verdict)
  have "snd (rateLimit now (getClientIp req) 30 60 rs)
      = rs(getClientIp req \<mapsto> filter (\<lambda>t. now - t < 60000) (bucket_of rs (getClientIp req)))"
    using f by (simp add: rateLimit_def bucket_of_def Let_def)
  with gamesData_denied[OF m d]
  show "gamesData ns net now req rs
            = (json_response 429
                 (Failure ''Rate limit exceeded. Please try again later.'' (Some 429)),
               [],
               rs(getClientIp req \<mapsto> filter (\<lambda>t. now - t < 60000) (bucket_of rs (getClientIp req))))"
    by simp
next
  assume "x_forwarded_for req = Some xf" "xf \<noteq> []"
  then show "getClientIp req = js_trim (hd (js_split (CHR '','') xf))"
    by (simp add: getClientIp_def present_def)
next
  assume "present (x_forwarded_for req) = None" "x_real_ip req = Some xr" "xr \<noteq> []"
  then show "getClientIp req = js_trim xr"
    by (simp add: getClientIp_def present_def)
next
  assume "present (x_forwarded_for req) = None" "present (x_real_ip req) = None"
    "remoteAddress req = Some a" "a \<noteq> []"
  then show "getClientIp req = a"
    by (simp add: getClientIp_def present_def)
qed

lemma forwarded_facts:
  "req_method req_forwarded = ''GET''"
  "x_forwarded_for req_forwarded = Some '' 198.51.100.7 , 10.0.0.1''"
  "js_trim (hd (js_split (CHR '','') '' 198.51.100.7 , 10.0.0.1'')) = ''198.51.100.7''"
  by (simp_all add: req_forwarded_def js_trim_def is_ws_def)

lemma real_ip_facts:
  "present (x_forwarded_for req_real_ip) = None"
  "x_real_ip req_real_ip = Some ''198.51.100.8 ''"
  "js_trim ''198.51.100.8 '' = ''198.51.100.8''"
  by (simp_all add: req_real_ip_def present_def js_trim_def is_ws_def)

lemma peer_facts:
  "present (x_forwarded_for req_peer) = None"
  "present (x_real_ip req_peer) = None"
  "remoteAddress req_peer = Some ''198.51.100.9''"
  by (simp_all add: req_peer_def present_def)

theorem C5_rate_limit_gate_witness:
  "req_method req_forwarded = ''GET''
   \<and> getClientIp req_forwarded = ''198.51.100.7''
   \<and> 30 \<le> length (filter (\<lambda>t. 1000 - t < 60000) (bucket_of full_bucket ''198.51.100.7''))
   \<and> gamesData ns_plain net_down 1000 req_forwarded full_bucket
       = (json_response 429 (Failure ''Rate limit exceeded. Please try again later.'' (Some 429)),
          [], full_bucket)
   \<and> getClientIp req_real_ip = ''198.51.100.8''
   \<and> getClientIp req_peer = ''198.51.100.9''"
proof -
  have ip: "getClientIp req_forwarded = ''198.51.100.7''"
    using C5_rate_limit_gate[of req_forwarded 0 Map.empty ns_plain net_down
        "'' 198.51.100.7 , 10.0.0.1''" "[]" "[]"] forwarded_facts
    by simp
  have full: "30 \<le> length (filter (\<lambda>t. 1000 - t < 60000) (bucket_of full_bucket ''198.51.100.7''))"
    by (simp add: full_bucket_def bucket_of_def)
  have same: "full_bucket(''198.51.100.7'' \<mapsto>
      filter (\<lambda>t. 1000 - t < 60000) (bucket_of full_bucket ''198.51.100.7'')) = full_bucket"
    by (simp add: full_bucket_def bucket_of_def)
  have denied: "gamesData ns_plain net_down 1000 req_forwarded full_bucket
       = (json_response 429 (Failure ''Rate limit exceeded. Please try again later.'' (Some 429)),
          [], full_bucket)"
    using C5_rate_limit_gate[of req_forwarded 1000 full_bucket ns_plain net_down "[]" "[]" "[]"]
      forwarded_facts(1) full same ip
    by simp
  have xr: "getClientIp req_real_ip = ''198.51.100.8''"
    using C5_rate_limit_gate[of req_real_ip 0 Map.empty ns_plain net_down "[]"
        "''198.51.100.8 ''" "[]"] real_ip_facts
    by simp
  have peer: "getClientIp req_peer = ''198.51.100.9''"
    using C5_rate_limit_gate[of req_peer 0 Map.empty ns_plain net_down "[]" "[]"
        "''198.51.100.9''"] peer_facts
    by simp
  from forwarded_facts(1) ip full denied xr peer show ?thesis by simp
qed

section \<open>The outbound calls of one request\<close>

lemma fetchJson_answer:
  "fetchJson net u calls =
     (if url_host u \<in> ALLOWED_HOSTS then (answer (net (length calls) u), calls @ [u])
      else (JNull, calls))"
  by (simp add: fetchJson_def answer_def split: outcome.splits option.splits)

lemma place_url_allowed: "url_host (place_url pid) \<in> ALLOWED_HOSTS"
  by (simp add: place_url_def ALLOWED_HOSTS_def)

lemma games_url_allowed: "url_host (games_url us) \<in> ALLOWED_HOSTS"
  by (simp add: games_url_def ALLOWED_HOSTS_def)

lemma icons_url_allowed: "url_host (icons_url us) \<in> ALLOWED_HOSTS"
  by (simp add: icons_url_def ALLOWED_HOSTS_def)

lemma placeToUniverseId_resolved:
  "placeToUniverseId ns net pid calls = (resolved ns net (length calls) pid, calls @ [place_url pid])"
  by (simp add: placeToUniverseId_def fetchJson_answer place_url_allowed resolved_def)

lemma resolve_loop_calls:
  "snd (resolve_loop ns net pids um calls) = calls @ map place_url pids"
  by (induction pids arbitrary: um calls) (simp_all add: placeToUniverseId_resolved)

lemma resolve_loop_map:
  "map_of (fst (resolve_loop ns net pids um calls)) =
     map_of um ++ map_of (rev (zip pids (resolutions ns net (length calls) pids)))"
proof (induction pids arbitrary: um calls)
  case Nil
  show ?case by simp
next
  case (Cons pid pids)
  have "map_of (fst (resolve_loop ns net (pid # pids) um calls)) =
        map_of (AList.update pid (resolved ns net (length calls) pid) um)
          ++ map_of (rev (zip pids (resolutions ns net (Suc (length calls)) pids)))"
    by (simp add: placeToUniverseId_resolved Cons.IH)
  also have "\<dots> = map_of um ++ map_of (rev (zip (pid # pids) (resolutions ns net (length calls) (pid # pids))))"
    by (rule ext) (simp add: update_conv' map_add_def split: option.splits)
  finally show ?case .
qed

lemma resolve_loop_keys:
  "fst ` set (fst (resolve_loop ns net pids um calls)) = fst ` set um \<union> set pids"
proof (induction pids arbitrary: um calls)
  case Nil
  show ?case by simp
next
  case (Cons pid pids)
  show ?case by (simp add: placeToUniverseId_resolved Cons.IH dom_update)
qed

lemma resolve_loop_distinct:
  "distinct (map fst um) \<Longrightarrow> distinct (map fst (fst (resolve_loop ns net pids um calls)))"
  by (induction pids arbitrary: um calls) (simp_all add: placeToUniverseId_resolved distinct_update)

lemma set_Object_values: "set (Object_values obj) = snd ` set obj"
  by (auto simp add: Object_values_def)

lemma set_loop_set: "set (set_loop xs seen) = set seen \<union> set xs"
  by (induction xs arbitrary: seen) auto

lemma set_loop_distinct: "distinct seen \<Longrightarrow> distinct (set_loop xs seen)"
  by (induction xs arbitrary: seen) auto

lemma unique_values_set: "set (unique_values xs) = set xs"
  by (simp add: unique_values_def set_loop_set)

lemma unique_values_distinct: "distinct (unique_values xs)"
  by (simp add: unique_values_def set_loop_distinct)

lemma fetch_stage_eq:
  "fetch_stage ns net placeIds =
     (let um = fst (resolve_loop ns net placeIds [] []);
          us = unique_values (Object_values um)
      in (um,
          answer (net (length placeIds) (games_url us)),
          answer (net (Suc (length placeIds)) (icons_url us)),
          map place_url placeIds @ [games_url us, icons_url us]))"
  by (simp add: fetch_stage_def Let_def split_beta fetchJson_answer games_url_allowed
      icons_url_allowed resolve_loop_calls)

lemma universe_values:
  assumes "distinct (map fst um)"
  shows "snd ` set um = {uid. \<exists>pid \<in> fst ` set um. map_of um pid = Some uid}"
  using assms by (force simp: image_iff)

section \<open>A sample request\<close>

lemma sample_ids: "validatePlaceIds (or_empty (ids_param req_sample)) = [''456'', ''123'', ''123'', ''789'']"
  by (simp add: req_sample_def or_empty_def validatePlaceIds_def js_trim_def is_ws_def Let_def
      re_digits_1_20_def is_digit_def)

lemma sample_index: "is_array_index ''456''" "is_array_index ''123''" "is_array_index ''789''"
  "digits_val ''456'' = 456" "digits_val ''123'' = 123" "digits_val ''789'' = 789"
  by (simp_all add: is_array_index_def is_digit_def digits_val_def digit_val_def)

lemma sample_dec: "dec_int 9001 = ''9001''" "dec_int 200 = ''200''"
  by (simp_all add: dec_int_def)

lemma sample_stage:
  "fetch_stage ns_plain net_sample [''456'', ''123'', ''123'', ''789''] =
     ([(''456'', ''9002''), (''123'', ''9001''), (''789'', ''789'')],
      sample_games, sample_icons,
      [place_url ''456'', place_url ''123'', place_url ''123'', place_url ''789'',
       games_url [''9001'', ''9002'', ''789''], icons_url [''9001'', ''9002'', ''789'']])"
  by (simp add: fetch_stage_eq Let_def placeToUniverseId_resolved resolved_def net_sample_def
      answer_def universe_of_data_def place_url_def re_digits_plus_def is_digit_def sample_dec
      Object_values_def sample_index unique_values_def games_url_def icons_url_def)

lemma sample_info:
  "gameInfo_of ns_plain sample_games =
     Some [''9001'' \<mapsto> \<lparr>info_name = JStr ''Alpha'', info_visits = JNum (Fin 100)\<rparr>,
           ''9002'' \<mapsto> \<lparr>info_name = JStr ''Beta'', info_visits = JStr ''bad''\<rparr>]"
  by (simp add: gameInfo_of_def sample_games_def dec_int_def)

lemma sample_icon_map:
  "gameIcons_of ns_plain sample_icons =
     Some \<lparr>own_props = [''9001'' \<mapsto> JStr ''https://t.example/a.png''], proto = None\<rparr>"
  by (simp add: gameIcons_of_def sample_icons_def dec_int_def icons_set_def empty_icons_def)


lemma sample_gate:
  "req_method req_sample = ''GET''"
  "fst (rateLimit 0 (getClientIp req_sample) 30 60 Map.empty)"
  by (simp_all add: req_sample_def rateLimit_def Let_def)

lemma calls_of_request:
  assumes "req_method req = ''GET''" and "fst (rateLimit now (getClientIp req) 30 60 rs)"
    and "validatePlaceIds (or_empty (ids_param req)) \<noteq> []"
  shows "fst (snd (gamesData ns net now req rs))
         = snd (snd (snd (fetch_stage ns net (validatePlaceIds (or_empty (ids_param req))))))"
  by (simp add: gamesData_try[OF assms] try_block_def split_beta Let_def split: option.splits)

lemma universe_ids_of_map:
  assumes "fetch_stage ns net placeIds = (um, infoData, iconData, calls)"
  shows "snd ` set um = {uid. \<exists>pid \<in> set placeIds. map_of um pid = Some uid}"
proof -
  from assms have um: "um = fst (resolve_loop ns net placeIds [] [])"
    by (simp add: fetch_stage_eq Let_def)
  have d: "distinct (map fst um)"
    unfolding um by (rule resolve_loop_distinct) simp
  have k: "fst ` set um = set placeIds"
    unfolding um by (simp add: resolve_loop_keys)
  from universe_values[OF d] k show ?thesis by simp
qed

text \<open>
  Claim C8. The two batch calls carry the same list of canonical identifiers, joined with
  commas: the values of the universe map with duplicates removed. The list is distinct and
  holds exactly the canonical identifiers of the retained identifiers, however many of
  them share one. The calls of one request are the lookups, one per retained identifier,
  then one metadata call and one icon call, whether or not the \<open>try\<close> block goes on to the
  end.
\<close>

theorem C8_batch_calls_deduplicated:
  "(fetch_stage ns net placeIds = (um, infoData, iconData, calls) \<longrightarrow>
      (let us = unique_values (Object_values um) in
         calls = map place_url placeIds @ [games_url us, icons_url us]
         \<and> distinct us
         \<and> set us = {uid. \<exists>pid \<in> set placeIds. map_of um pid = Some uid}
         \<and> games_url us = Url ''games.roblox.com'' (''/v1/games?universeIds='' @ js_join '','' us)
         \<and> icons_url us = Url ''thumbnails.roblox.com''
               (''/v1/games/icons?universeIds='' @ js_join '','' us
                @ ''&size=420x420&format=Png&isCircular=false'')
         \<and> length (filter (\<lambda>u. url_host u = ''games.roblox.com'') calls) = 1
         \<and> length (filter (\<lambda>u. url_host u = ''thumbnails.roblox.com'') calls) = 1))
   \<and> (req_method req = ''GET'' \<longrightarrow> fst (rateLimit now (getClientIp req) 30 60 rs)
        \<longrightarrow> validatePlaceIds (or_empty (ids_param req)) \<noteq> []
        \<longrightarrow> fst (snd (gamesData ns net now req rs))
              = snd (snd (snd (fetch_stage ns net (validatePlaceIds (or_empty (ids_param req)))))))"
proof (intro conjI impI)
  assume st: "fetch_stage ns net placeIds = (um, infoData, iconData, calls)"
  define us where "us = unique_values (Object_values um)"
  from st have c: "calls = map place_url placeIds @ [games_url us, icons_url us]"
    by (auto simp add: fetch_stage_eq Let_def us_def)
  have d: "distinct us"
    by (simp add: us_def unique_values_distinct)
  have s: "set us = {uid. \<exists>pid \<in> set placeIds. map_of um pid = Some uid}"
    using universe_ids_of_map[OF st] by (simp add: us_def unique_values_set set_Object_values)
  have g: "length (filter (\<lambda>u. url_host u = ''games.roblox.com'') calls) = 1"
    by (simp add: c place_url_def games_url_def icons_url_def)
  have t: "length (filter (\<lambda>u. url_host u = ''thumbnails.roblox.com'') calls) = 1"
    by (simp add: c place_url_def games_url_def icons_url_def)
  show "let us = unique_values (Object_values um) in
         calls = map place_url placeIds @ [games_url us, icons_url us]
         \<and> distinct us
         \<and> set us = {uid. \<exists>pid \<in> set placeIds. map_of um pid = Some uid}
         \<and> games_url us = Url ''games.roblox.com'' (''/v1/games?universeIds='' @ js_join '','' us)
         \<and> icons_url us = Url ''thumbnails.roblox.com''
               (''/v1/games/icons?universeIds='' @ js_join '','' us
                @ ''&size=420x420&format=Png&isCircular=false'')
         \<and> length (filter (\<lambda>u. url_host u = ''games.roblox.com'') calls) = 1
         \<and> length (filter (\<lambda>u. url_host u = ''thumbnails.roblox.com'') calls) = 1"
    unfolding Let_def us_def[symmetric]
    using c d s g t by (simp add: games_url_def icons_url_def)
next
  assume "req_method req = ''GET''" "fst (rateLimit now (getClientIp req) 30 60 rs)"
    "validatePlaceIds (or_empty (ids_param req)) \<noteq> []"
  then show "fst (snd (gamesData ns net now req rs))
              = snd (snd (snd (fetch_stage ns net (validatePlaceIds (or_empty (ids_param req))))))"
    by (rule calls_of_request)
qed

lemma sample_unique:
  "unique_values (Object_values [(''456'', ''9002''), (''123'', ''9001''), (''789'', ''789'')])
     = [''9001'', ''9002'', ''789'']"
  by (simp add: Object_values_def sample_index unique_values_def)

theorem C8_batch_calls_deduplicated_witness:
  "fetch_stage ns_plain net_sample [''456'', ''123'', ''123'', ''789'']
     = ([(''456'', ''9002''), (''123'', ''9001''), (''789'', ''789'')], sample_games, sample_icons,
        [place_url ''456'', place_url ''123'', place_url ''123'', place_url ''789'',
         games_url [''9001'', ''9002'', ''789''], icons_url [''9001'', ''9002'', ''789'']])
   \<and> distinct [''9001'', ''9002'', ''789'']
   \<and> games_url [''9001'', ''9002'', ''789'']
       = Url ''games.roblox.com'' ''/v1/games?universeIds=9001,9002,789''
   \<and> req_method req_sample = ''GET''
   \<and> fst (rateLimit 0 (getClientIp req_sample) 30 60 Map.empty)
   \<and> validatePlaceIds (or_empty (ids_param req_sample)) = [''456'', ''123'', ''123'', ''789'']
   \<and> fst (snd (gamesData ns_plain net_sample 0 req_sample Map.empty))
       = [place_url ''456'', place_url ''123'', place_url ''123'', place_url ''789'',
          games_url [''9001'', ''9002'', ''789''], icons_url [''9001'', ''9002'', ''789'']]"
  using C8_batch_calls_deduplicated[of ns_plain net_sample "[''456'', ''123'', ''123'', ''789'']"
      "[(''456'', ''9002''), (''123'', ''9001''), (''789'', ''789'')]" sample_games sample_icons
      "[place_url ''456'', place_url ''123'', place_url ''123'', place_url ''789'',
        games_url [''9001'', ''9002'', ''789''], icons_url [''9001'', ''9002'', ''789'']]"
      req_sample 0 Map.empty]
    sample_stage sample_gate sample_ids sample_unique
  by (simp add: Let_def)

section \<open>The records of a response\<close>

lemma gamesData_success:
  assumes "req_method req = ''GET''" and "fst (rateLimit now (getClientIp req) 30 60 rs)"
    and "validatePlaceIds (or_empty (ids_param req)) = placeIds" and "placeIds \<noteq> []"
    and "fetch_stage ns net placeIds = (um, infoData, iconData, calls)"
    and "gameInfo_of ns infoData = Some gi" and "gameIcons_of ns iconData = Some gc"
  shows "fst (gamesData ns net now req rs) =
     json_response 200
       (Success (map (join_record um gi gc) placeIds)
          (num_String ns (Fin (of_int (floor_total (map (join_record um gi gc) placeIds)))))
          (length placeIds))"
proof -
  from assms(3,4) have n: "validatePlaceIds (or_empty (ids_param req)) \<noteq> []" by simp
  show ?thesis
    by (simp add: gamesData_try[OF assms(1,2) n] assms(3) try_block_success[OF assms(5,6,7)])
qed

lemma universe_map_defined:
  assumes "fetch_stage ns net placeIds = (um, infoData, iconData, calls)"
    and "pid \<in> set placeIds"
  shows "\<exists>uid. map_of um pid = Some uid"
proof -
  from assms(1) have um: "um = fst (resolve_loop ns net placeIds [] [])"
    by (simp add: fetch_stage_eq Let_def)
  have "fst ` set um = set placeIds"
    unfolding um by (simp add: resolve_loop_keys)
  with assms(2) have "pid \<in> dom (map_of um)"
    by (simp add: dom_map_of_conv_image_fst)
  then show ?thesis by blast
qed

lemma universe_map_last:
  assumes "fetch_stage ns net placeIds = (um, infoData, iconData, calls)"
  shows "map_of um = map_of (rev (zip placeIds (resolutions ns net 0 placeIds)))"
proof -
  from assms have um: "um = fst (resolve_loop ns net placeIds [] [])"
    by (simp add: fetch_stage_eq Let_def)
  show ?thesis
    unfolding um by (simp add: resolve_loop_map)
qed

text \<open>
  Claim C1. Take a \<open>GET\<close> request that the rate limiter admits, with a non-empty list of
  retained identifiers, and whose two lookup maps are built without an exception. The
  response is 200 and its data array has one record per retained identifier, in the order
  of the input, duplicates included. The record of an identifier carries that identifier,
  its entry \<open>uid\<close> of the universe map (always defined, and the result of the last lookup made
  for the identifier), and the name, the visit count and the icon stored under \<open>uid\<close>, each
  \<open>null\<close> when the lookup map has nothing under \<open>uid\<close>.
\<close>

theorem C1_result_records:
  "req_method req = ''GET'' \<longrightarrow> fst (rateLimit now (getClientIp req) 30 60 rs)
   \<longrightarrow> validatePlaceIds (or_empty (ids_param req)) = placeIds \<longrightarrow> placeIds \<noteq> []
   \<longrightarrow> fetch_stage ns net placeIds = (um, infoData, iconData, calls)
   \<longrightarrow> gameInfo_of ns infoData = Some gi \<longrightarrow> gameIcons_of ns iconData = Some gc
   \<longrightarrow> (let rows = body_data (body (fst (gamesData ns net now req rs))) in
          status (fst (gamesData ns net now req rs)) = 200
          \<and> length rows = length placeIds
          \<and> map inputId rows = placeIds
          \<and> (\<forall>i < length placeIds. \<exists>uid.
                map_of um (placeIds ! i) = Some uid
                \<and> rows ! i =
                    \<lparr>inputId = placeIds ! i,
                     universeId = Some uid,
                     name = (case gi uid of None \<Rightarrow> JNull | Some entry \<Rightarrow> info_name entry),
                     visits = (case gi uid of None \<Rightarrow> JNull | Some entry \<Rightarrow> info_visits entry),
                     icon = (case icons_get gc uid of
                               None \<Rightarrow> JNull
                             | Some v \<Rightarrow> if truthy v then v else JNull)\<rparr>)
          \<and> map_of um = map_of (rev (zip placeIds (resolutions ns net 0 placeIds))))"
proof (intro impI)
  assume m: "req_method req = ''GET''" and a: "fst (rateLimit now (getClientIp req) 30 60 rs)"
    and v: "validatePlaceIds (or_empty (ids_param req)) = placeIds" and n: "placeIds \<noteq> []"
    and st: "fetch_stage ns net placeIds = (um, infoData, iconData, calls)"
    and gi: "gameInfo_of ns infoData = Some gi" and gc: "gameIcons_of ns iconData = Some gc"
  define rows where "rows = body_data (body (fst (gamesData ns net now req rs)))"
  note g = gamesData_success[OF m a v n st gi gc]
  have r: "rows = map (join_record um gi gc) placeIds"
    by (simp add: rows_def g json_response_def)
  have s: "status (fst (gamesData ns net now req rs)) = 200"
    by (simp add: g json_response_def)
  have i: "map inputId rows = placeIds"
    unfolding r by (induction placeIds) (simp_all add: join_record_def)
  have e: "\<forall>i < length placeIds. \<exists>uid.
                map_of um (placeIds ! i) = Some uid
                \<and> rows ! i =
                    \<lparr>inputId = placeIds ! i,
                     universeId = Some uid,
                     name = (case gi uid of None \<Rightarrow> JNull | Some entry \<Rightarrow> info_name entry),
                     visits = (case gi uid of None \<Rightarrow> JNull | Some entry \<Rightarrow> info_visits entry),
                     icon = (case icons_get gc uid of
                               None \<Rightarrow> JNull
                             | Some v \<Rightarrow> if truthy v then v else JNull)\<rparr>"
  proof (intro allI impI)
    fix i assume l: "i < length placeIds"
    then have "placeIds ! i \<in> set placeIds" by simp
    from universe_map_defined[OF st this] obtain uid where
      u: "map_of um (placeIds ! i) = Some uid" by blast
    have "rows ! i = join_record um gi gc (placeIds ! i)"
      using l by (simp add: r)
    also have "\<dots> = \<lparr>inputId = placeIds ! i,
                     universeId = Some uid,
                     name = (case gi uid of None \<Rightarrow> JNull | Some entry \<Rightarrow> info_name entry),
                     visits = (case gi uid of None \<Rightarrow> JNull | Some entry \<Rightarrow> info_visits entry),
                     icon = (case icons_get gc uid of
                               None \<Rightarrow> JNull
                             | Some v \<Rightarrow> if truthy v then v else JNull)\<rparr>"
      by (simp add: join_record_def u key_of_def info_lookup_def icon_lookup_def split: option.splits)
    finally show "\<exists>uid. map_of um (placeIds ! i) = Some uid
                \<and> rows ! i =
                    \<lparr>inputId = placeIds ! i,
                     universeId = Some uid,
                     name = (case gi uid of None \<Rightarrow> JNull | Some entry \<Rightarrow> info_name entry),
                     visits = (case gi uid of None \<Rightarrow> JNull | Some entry \<Rightarrow> info_visits entry),
                     icon = (case icons_get gc uid of
                               None \<Rightarrow> JNull
                             | Some v \<Rightarrow> if truthy v then v else JNull)\<rparr>"
      using u by blast
  qed
  show "let rows = body_data (body (fst (gamesData ns net now req rs))) in
          status (fst (gamesData ns net now req rs)) = 200
          \<and> length rows = length placeIds
          \<and> map inputId rows = placeIds
          \<and> (\<forall>i < length placeIds. \<exists>uid.
                map_of um (placeIds ! i) = Some uid
                \<and> rows ! i =
                    \<lparr>inputId = placeIds ! i,
                     universeId = Some uid,
                     name = (case gi uid of None \<Rightarrow> JNull | Some entry \<Rightarrow> info_name entry),
                     visits = (case gi uid of None \<Rightarrow> JNull | Some entry \<Rightarrow> info_visits entry),
                     icon = (case icons_get gc uid of
                               None \<Rightarrow> JNull
                             | Some v \<Rightarrow> if truthy v then v else JNull)\<rparr>)
          \<and> map_of um = map_of (rev (zip placeIds (resolutions ns net 0 placeIds)))"
    unfolding Let_def rows_def[symmetric]
    using s i e universe_map_last[OF st] r by simp
qed

lemma four_records: "Suc (Suc (Suc (Suc 0))) = 4"
  by simp

lemma sample_response:
  "fst (gamesData ns_plain net_sample 0 req_sample Map.empty)
     = json_response 200 (Success sample_rows ''200'' 4)"
  by (simp add: gamesData_success[OF sample_gate sample_ids _ sample_stage sample_info sample_icon_map]
      join_record_def key_of_def info_lookup_def icon_lookup_def icons_get_def floor_total_def
      sample_rows_def dec_int_def four_records)

theorem C1_result_records_witness:
  "req_method req_sample = ''GET''
   \<and> fst (rateLimit 0 (getClientIp req_sample) 30 60 Map.empty)
   \<and> validatePlaceIds (or_empty (ids_param req_sample)) = [''456'', ''123'', ''123'', ''789'']
   \<and> fetch_stage ns_plain net_sample [''456'', ''123'', ''123'', ''789'']
       = ([(''456'', ''9002''), (''123'', ''9001''), (''789'', ''789'')], sample_games, sample_icons,
          [place_url ''456'', place_url ''123'', place_url ''123'', place_url ''789'',
           games_url [''9001'', ''9002'', ''789''], icons_url [''9001'', ''9002'', ''789'']])
   \<and> gameInfo_of ns_plain sample_games
       = Some [''9001'' \<mapsto> \<lparr>info_name = JStr ''Alpha'', info_visits = JNum (Fin 100)\<rparr>,
               ''9002'' \<mapsto> \<lparr>info_name = JStr ''Beta'', info_visits = JStr ''bad''\<rparr>]
   \<and> gameIcons_of ns_plain sample_icons
       = Some \<lparr>own_props = [''9001'' \<mapsto> JStr ''https://t.example/a.png''], proto = None\<rparr>
   \<and> status (fst (gamesData ns_plain net_sample 0 req_sample Map.empty)) = 200
   \<and> body_data (body (fst (gamesData ns_plain net_sample 0 req_sample Map.empty))) = sample_rows
   \<and> map inputId (body_data (body (fst (gamesData ns_plain net_sample 0 req_sample Map.empty))))
       = [''456'', ''123'', ''123'', ''789'']"
  using C1_result_records[of req_sample 0 Map.empty "[''456'', ''123'', ''123'', ''789'']"
      ns_plain net_sample "[(''456'', ''9002''), (''123'', ''9001''), (''789'', ''789'')]"
      sample_games sample_icons
      "[place_url ''456'', place_url ''123'', place_url ''123'', place_url ''789'',
        games_url [''9001'', ''9002'', ''789''], icons_url [''9001'', ''9002'', ''789'']]"
      "[''9001'' \<mapsto> \<lparr>info_name = JStr ''Alpha'', info_visits = JNum (Fin 100)\<rparr>,
        ''9002'' \<mapsto> \<lparr>info_name = JStr ''Beta'', info_visits = JStr ''bad''\<rparr>]"
      "\<lparr>own_props = [''9001'' \<mapsto> JStr ''https://t.example/a.png''], proto = None\<rparr>"]
    sample_gate sample_ids sample_stage sample_info sample_icon_map sample_response
  by (simp add: Let_def json_response_def)

section \<open>The visit total\<close>

lemma try_block_total:
  "fst (try_block ns net placeIds) = Some r \<Longrightarrow> body r = Success rows t c \<Longrightarrow>
   t = num_String ns (Fin (of_int (floor_total rows)))"
  by (auto simp add: try_block_def join_loop_eq json_response_def split: prod.splits option.splits)

lemma gamesData_success_total:
  assumes "body (fst (gamesData ns net now req rs)) = Success rows t c"
  shows "t = num_String ns (Fin (of_int (floor_total rows)))"
proof -
  from gamesData_success_rows[OF assms] have m: "req_method req = ''GET''"
    and a: "fst (rateLimit now (getClientIp req) 30 60 rs)"
    and n: "validatePlaceIds (or_empty (ids_param req)) \<noteq> []" by simp_all
  obtain r' calls where tb:
    "try_block ns net (validatePlaceIds (or_empty (ids_param req))) = (r', calls)"
    by (cases "try_block ns net (validatePlaceIds (or_empty (ids_param req)))")
  show ?thesis
  proof (cases r')
    case None
    with assms m a n tb show ?thesis by (simp add: gamesData_try json_response_def)
  next
    case (Some r)
    with assms m a n tb have b: "body r = Success rows t c" by (simp add: gamesData_try)
    from tb Some have "fst (try_block ns net (validatePlaceIds (or_empty (ids_param req)))) = Some r"
      by simp
    from try_block_total[OF this b] show ?thesis .
  qed
qed

lemma num_String_int:
  "\<bar>i\<bar> \<le> 2 ^ 53 \<Longrightarrow> num_String ns (Fin (of_int i)) = dec_int i"
proof -
  assume "\<bar>i\<bar> \<le> 2 ^ 53"
  then have "(of_int \<bar>i\<bar> :: rat) \<le> of_int (2 ^ 53)"
    by (simp only: of_int_le_iff)
  then have "\<bar>of_int i :: rat\<bar> \<le> 2 ^ 53" by simp
  then show ?thesis by simp
qed

lemma num_String_beyond:
  "2 ^ 53 < \<bar>q\<bar> \<Longrightarrow> num_String ns (Fin q) = ns q"
  by simp

lemma floor_total_abs:
  "\<bar>floor_total rows\<bar>
     \<le> sum_list (map (\<lambda>r. \<bar>Math_floor (visits r)\<bar>) (filter (\<lambda>r. finite_number (visits r)) rows))"
proof -
  have "\<bar>sum_list (map f xs)\<bar> \<le> sum_list (map (\<lambda>x. \<bar>f x\<bar>) xs)" for f :: "result_record \<Rightarrow> int" and xs
    by (induction xs) auto
  then show ?thesis by (simp add: floor_total_def)
qed

lemma floor_total_cases:
  "floor_total rows = (\<Sum>r\<leftarrow>rows. if finite_number (visits r) then Math_floor (visits r) else 0)"
  by (induction rows) (simp_all add: floor_total_Nil floor_total_Cons)

lemma truncation_floor: "non_negative v \<Longrightarrow> truncation v = Math_floor v"
  by (cases v rule: truncation.cases) simp_all

lemma floor_total_truncated:
  "list_all (\<lambda>r. non_negative (visits r)) rows \<Longrightarrow> floor_total rows = truncated_total rows"
  by (induction rows) (simp_all add: floor_total_def truncated_total_def truncation_floor)

text \<open>
  Claim C2, as amended. In a successful response, \<open>totalVisits\<close> is the decimal string of the
  sum, over the records whose visit count is a finite number, of the floor of the count
  (\<open>Math.floor\<close>, the greatest integer not above it); the other records add nothing. This
  is stated within the range where the additions of the handler are exact: the magnitudes
  of the floors sum to at most \<open>2^53\<close>. Where no counted visit count is negative, the floor
  is the integer truncation and the sum is the one the claim names.
\<close>

theorem C2_total_visits_floor:
  "body (fst (gamesData ns net now req rs)) = Success rows t c
   \<longrightarrow> sum_list (map (\<lambda>r. \<bar>Math_floor (visits r)\<bar>) (filter (\<lambda>r. finite_number (visits r)) rows))
         \<le> 2 ^ 53
   \<longrightarrow> t = dec_int (floor_total rows)
       \<and> floor_total rows
           = (\<Sum>r\<leftarrow>rows. if finite_number (visits r) then Math_floor (visits r) else 0)
       \<and> (list_all (\<lambda>r. non_negative (visits r)) rows \<longrightarrow> t = dec_int (truncated_total rows))"
proof (intro impI)
  assume b: "body (fst (gamesData ns net now req rs)) = Success rows t c"
    and e: "sum_list (map (\<lambda>r. \<bar>Math_floor (visits r)\<bar>) (filter (\<lambda>r. finite_number (visits r)) rows))
         \<le> 2 ^ 53"
  have "\<bar>floor_total rows\<bar> \<le> 2 ^ 53"
    using floor_total_abs[of rows] e by (rule order_trans)
  then have "num_String ns (Fin (of_int (floor_total rows))) = dec_int (floor_total rows)"
    by (rule num_String_int)
  with gamesData_success_total[OF b] have t: "t = dec_int (floor_total rows)" by simp
  show "t = dec_int (floor_total rows)
       \<and> floor_total rows
           = (\<Sum>r\<leftarrow>rows. if finite_number (visits r) then Math_floor (visits r) else 0)
       \<and> (list_all (\<lambda>r. non_negative (visits r)) rows \<longrightarrow> t = dec_int (truncated_total rows))"
    using t floor_total_cases[of rows] floor_total_truncated[of rows] by simp
qed

lemma sample_bound:
  "sum_list (map (\<lambda>r. \<bar>Math_floor (visits r)\<bar>) (filter (\<lambda>r. finite_number (visits r)) sample_rows))
     \<le> 2 ^ 53"
  by (simp add: sample_rows_def)

lemma sample_totals:
  "floor_total sample_rows = 200" "truncated_total sample_rows = 200"
  "list_all (\<lambda>r. non_negative (visits r)) sample_rows"
  by (simp_all add: sample_rows_def floor_total_def truncated_total_def)

theorem C2_total_visits_floor_witness:
  "body (fst (gamesData ns_plain net_sample 0 req_sample Map.empty)) = Success sample_rows ''200'' 4
   \<and> sum_list (map (\<lambda>r. \<bar>Math_floor (visits r)\<bar>)
        (filter (\<lambda>r. finite_number (visits r)) sample_rows)) \<le> 2 ^ 53
   \<and> list_all (\<lambda>r. non_negative (visits r)) sample_rows
   \<and> ''200'' = dec_int (floor_total sample_rows)
   \<and> floor_total sample_rows = 200
   \<and> ''200'' = dec_int (truncated_total sample_rows)"
proof -
  have b: "body (fst (gamesData ns_plain net_sample 0 req_sample Map.empty))
      = Success sample_rows ''200'' 4"
    by (simp add: sample_response json_response_def)
  from C2_total_visits_floor[of ns_plain net_sample 0 req_sample Map.empty sample_rows "''200''" 4]
    b sample_bound sample_totals
  show ?thesis by simp
qed

lemma negative_ids: "validatePlaceIds (or_empty (ids_param req_seven)) = [''7'']"
  by (simp add: req_seven_def or_empty_def validatePlaceIds_def js_trim_def is_ws_def Let_def
      re_digits_1_20_def is_digit_def)

lemma negative_gate:
  "req_method req_seven = ''GET''"
  "fst (rateLimit 0 (getClientIp req_seven) 30 60 Map.empty)"
  by (simp_all add: req_seven_def rateLimit_def Let_def)

lemma negative_stage:
  "fetch_stage ns_plain net_negative [''7''] =
     ([(''7'', ''7'')], negative_games, JNull,
      [place_url ''7'', games_url [''7''], icons_url [''7'']])"
  by (simp add: fetch_stage_eq Let_def placeToUniverseId_resolved resolved_def net_negative_def
      answer_def universe_of_data_def place_url_def Object_values_def is_array_index_def
      is_digit_def digits_val_def digit_val_def unique_values_def games_url_def icons_url_def)

lemma negative_info:
  "gameInfo_of ns_plain negative_games =
     Some [''7'' \<mapsto> \<lparr>info_name = JStr ''N'', info_visits = JNum (Fin (- 3 / 2))\<rparr>]"
  by (simp add: gameInfo_of_def negative_games_def)

lemma no_icons: "gameIcons_of ns JNull = Some empty_icons"
  by (simp add: gameIcons_of_def)

lemma floor_negative: "\<lfloor>- (3 / 2) :: rat\<rfloor> = - 2" "\<lceil>- (3 / 2) :: rat\<rceil> = - 1"
  by (simp_all add: floor_eq_iff ceiling_eq_iff)

lemma negative_dec: "dec_int (- 2) = ''-2''" "dec_int (- 1) = ''-1''"
  by (simp_all add: dec_int_def)

lemma negative_response:
  "fst (gamesData ns_plain net_negative 0 req_seven Map.empty)
     = json_response 200 (Success negative_rows ''-2'' 1)"
  by (simp add: gamesData_success[OF negative_gate negative_ids _ negative_stage negative_info no_icons]
      join_record_def key_of_def info_lookup_def icon_lookup_def icons_get_def empty_icons_def
      floor_total_def negative_rows_def floor_negative negative_dec)

text \<open>
  Claim C2 as stated fails on a negative fractional visit count: for a single record with
  \<open>visits = -1.5\<close> the handler answers \<open>totalVisits = "-2"\<close>, and the sum of the integer
  truncations is \<open>-1\<close>.
\<close>

theorem C2_truncation_counterexample:
  "body_data (body (fst (gamesData ns_plain net_negative 0 req_seven Map.empty))) = negative_rows
   \<and> body_totalVisits (body (fst (gamesData ns_plain net_negative 0 req_seven Map.empty))) = ''-2''
   \<and> dec_int (truncated_total
         (body_data (body (fst (gamesData ns_plain net_negative 0 req_seven Map.empty))))) = ''-1''"
  by (simp add: negative_response json_response_def truncated_total_def negative_rows_def
      floor_negative negative_dec)

section \<open>Failed outbound calls\<close>

lemma no_info: "gameInfo_of ns JNull = Some Map.empty"
  by (simp add: gameInfo_of_def)

lemma null_resolutions:
  "(\<And>n u. answer (net n u) = JNull) \<Longrightarrow> resolutions ns net n pids = pids"
  by (induction pids arbitrary: n) (simp_all add: resolved_def universe_of_data_def)

lemma map_of_zip_same: "x \<in> set xs \<Longrightarrow> map_of (rev (zip xs xs)) x = Some x"
proof -
  assume x: "x \<in> set xs"
  then have "(x, x) \<in> set (rev (zip xs xs))"
    by (simp add: zip_same)
  then have "x \<in> fst ` set (rev (zip xs xs))"
    by force
  then obtain y where y: "map_of (rev (zip xs xs)) x = Some y"
    by (meson map_of_eq_None_iff not_Some_eq)
  then have "(x, y) \<in> set (zip xs xs)"
    by (auto dest: map_of_SomeD)
  then have "y = x" by (simp add: zip_same)
  with y show ?thesis by simp
qed

lemma join_record_empty:
  "join_record um Map.empty empty_icons pid =
     \<lparr>inputId = pid, universeId = map_of um pid, name = JNull, visits = JNull, icon = JNull\<rparr>"
  by (simp add: join_record_def info_lookup_def icon_lookup_def icons_get_def empty_icons_def)

lemma all_null_response:
  assumes null: "\<And>n u. answer (net n u) = JNull"
    and m: "req_method req = ''GET''" and a: "fst (rateLimit now (getClientIp req) 30 60 rs)"
    and v: "validatePlaceIds (or_empty (ids_param req)) = placeIds" and n: "placeIds \<noteq> []"
  shows "fst (gamesData ns net now req rs) =
     json_response 200
       (Success (map (\<lambda>pid. \<lparr>inputId = pid, universeId = Some pid, name = JNull, visits = JNull,
                               icon = JNull\<rparr>) placeIds)
          ''0'' (length placeIds))"
proof -
  obtain um infoData iconData calls where
    st: "fetch_stage ns net placeIds = (um, infoData, iconData, calls)"
    by (cases "fetch_stage ns net placeIds") auto
  then have i: "infoData = JNull" and c: "iconData = JNull"
    by (auto simp add: fetch_stage_eq Let_def null)
  have um: "map_of um pid = Some pid" if "pid \<in> set placeIds" for pid
    using that by (simp add: universe_map_last[OF st] null_resolutions[OF null] map_of_zip_same)
  have rows: "map (join_record um Map.empty empty_icons) placeIds
      = map (\<lambda>pid. \<lparr>inputId = pid, universeId = Some pid, name = JNull, visits = JNull,
                       icon = JNull\<rparr>) placeIds"
    by (rule map_cong) (simp_all add: join_record_empty um)
  have tot: "floor_total (map (\<lambda>pid. \<lparr>inputId = pid, universeId = Some pid, name = JNull,
                visits = JNull, icon = JNull\<rparr>) placeIds) = 0"
    by (induction placeIds) (simp_all add: floor_total_Nil floor_total_Cons)
  have zero: "dec_int 0 = ''0''" by (simp add: dec_int_def)
  from st i c have st': "fetch_stage ns net placeIds = (um, JNull, JNull, calls)" by simp
  show ?thesis
    by (simp add: gamesData_success[OF m a v n st' no_info no_icons] rows tot zero)
qed

text \<open>
  Claim C6. For a URL whose host is outside the three allowed hosts, \<open>fetchJson\<close> returns
  \<open>null\<close> and the list of calls made is unchanged: the network is not asked. For an allowed
  host one call is made, and a rejected \<open>fetch\<close> (network error, timeout, redirect), a status
  outside 200..299 or a body that does not parse give \<open>null\<close>; \<open>fetchJson\<close> has no other
  result than a value. On \<open>null\<close> the lookup of a place returns the place identifier
  itself, both lookup maps are empty, and a record joined on empty maps has \<open>null\<close> for
  name, visits and icon. When every outbound call ends in \<open>null\<close>, the request is still
  answered 200, each record holding its input identifier as canonical identifier and
  \<open>null\<close> fields, with a total of \<open>0\<close>.
\<close>

theorem C6_fetchJson_degrades:
  "(url_host u \<notin> ALLOWED_HOSTS \<longrightarrow> fetchJson net u calls = (JNull, calls))
   \<and> (url_host u \<in> ALLOWED_HOSTS \<longrightarrow>
        snd (fetchJson net u calls) = calls @ [u]
        \<and> (net (length calls) u = Rejected failure \<longrightarrow> fst (fetchJson net u calls) = JNull)
        \<and> (net (length calls) u = Responded st parsed \<longrightarrow> \<not> (200 \<le> st \<and> st \<le> 299)
             \<longrightarrow> fst (fetchJson net u calls) = JNull)
        \<and> (net (length calls) u = Responded st None \<longrightarrow> fst (fetchJson net u calls) = JNull))
   \<and> universe_of_data ns placeId JNull = placeId
   \<and> gameInfo_of ns JNull = Some Map.empty
   \<and> gameIcons_of ns JNull = Some empty_icons
   \<and> join_record um Map.empty empty_icons pid
       = \<lparr>inputId = pid, universeId = map_of um pid, name = JNull, visits = JNull, icon = JNull\<rparr>
   \<and> ((\<forall>n v. answer (net n v) = JNull) \<longrightarrow> req_method req = ''GET''
        \<longrightarrow> fst (rateLimit now (getClientIp req) 30 60 rs)
        \<longrightarrow> validatePlaceIds (or_empty (ids_param req)) = placeIds \<longrightarrow> placeIds \<noteq> []
        \<longrightarrow> fst (gamesData ns net now req rs) =
              json_response 200
                (Success (map (\<lambda>pid. \<lparr>inputId = pid, universeId = Some pid, name = JNull,
                                        visits = JNull, icon = JNull\<rparr>) placeIds)
                   ''0'' (length placeIds)))"
proof (intro conjI impI)
  assume "url_host u \<notin> ALLOWED_HOSTS"
  then show "fetchJson net u calls = (JNull, calls)"
    by (simp add: fetchJson_def)
next
  assume h: "url_host u \<in> ALLOWED_HOSTS"
  show "snd (fetchJson net u calls) = calls @ [u]"
    using h by (simp add: fetchJson_answer)
  show "fst (fetchJson net u calls) = JNull" if "net (length calls) u = Rejected failure"
    using h that by (simp add: fetchJson_def)
  show "fst (fetchJson net u calls) = JNull"
    if "net (length calls) u = Responded st parsed" "\<not> (200 \<le> st \<and> st \<le> 299)"
    using h that by (simp add: fetchJson_def)
  show "fst (fetchJson net u calls) = JNull" if "net (length calls) u = Responded st None"
    using h that by (simp add: fetchJson_def)
next
  show "universe_of_data ns placeId JNull = placeId"
    by (simp add: universe_of_data_def)
next
  show "gameInfo_of ns JNull = Some Map.empty" by (rule no_info)
next
  show "gameIcons_of ns JNull = Some empty_icons" by (rule no_icons)
next
  show "join_record um Map.empty empty_icons pid
       = \<lparr>inputId = pid, universeId = map_of um pid, name = JNull, visits = JNull, icon = JNull\<rparr>"
    by (rule join_record_empty)
next
  assume "\<forall>n v. answer (net n v) = JNull" "req_method req = ''GET''"
    "fst (rateLimit now (getClientIp req) 30 60 rs)"
    "validatePlaceIds (or_empty (ids_param req)) = placeIds" "placeIds \<noteq> []"
  then show "fst (gamesData ns net now req rs) =
              json_response 200
                (Success (map (\<lambda>pid. \<lparr>inputId = pid, universeId = Some pid, name = JNull,
                                        visits = JNull, icon = JNull\<rparr>) placeIds)
                   ''0'' (length placeIds))"
    by (intro all_null_response) simp_all
qed

lemma two_ids: "validatePlaceIds (or_empty (ids_param req_two)) = [''31'', ''7'']"
  by (simp add: req_two_def or_empty_def validatePlaceIds_def js_trim_def is_ws_def Let_def
      re_digits_1_20_def is_digit_def)

lemma two_gate:
  "req_method req_two = ''GET''"
  "fst (rateLimit 0 (getClientIp req_two) 30 60 Map.empty)"
  by (simp_all add: req_two_def rateLimit_def Let_def)

lemma net_down_null: "\<forall>n v. answer (net_down n v) = JNull"
  by (simp add: net_down_def answer_def)

lemma two_records: "Suc (Suc 0) = 2"
  by simp

theorem C6_fetchJson_degrades_witness:
  "url_host url_elsewhere \<notin> ALLOWED_HOSTS
   \<and> fetchJson net_sample url_elsewhere [] = (JNull, [])
   \<and> url_host (place_url ''789'') \<in> ALLOWED_HOSTS
   \<and> net_down 0 (place_url ''789'') = Rejected NetworkError
   \<and> fetchJson net_down (place_url ''789'') [] = (JNull, [place_url ''789''])
   \<and> net_sample 0 (place_url ''789'') = Responded 404 None
   \<and> fetchJson net_sample (place_url ''789'') [] = (JNull, [place_url ''789''])
   \<and> (\<forall>n v. answer (net_down n v) = JNull)
   \<and> req_method req_two = ''GET''
   \<and> fst (rateLimit 0 (getClientIp req_two) 30 60 Map.empty)
   \<and> validatePlaceIds (or_empty (ids_param req_two)) = [''31'', ''7'']
   \<and> fst (gamesData ns_plain net_down 0 req_two Map.empty) =
       json_response 200
         (Success [\<lparr>inputId = ''31'', universeId = Some ''31'', name = JNull, visits = JNull,
                    icon = JNull\<rparr>,
                   \<lparr>inputId = ''7'', universeId = Some ''7'', name = JNull, visits = JNull,
                    icon = JNull\<rparr>]
            ''0'' 2)"
proof -
  have e: "url_host url_elsewhere \<notin> ALLOWED_HOSTS"
    by (simp add: url_elsewhere_def ALLOWED_HOSTS_def)
  have p: "url_host (place_url ''789'') \<in> ALLOWED_HOSTS"
    by (rule place_url_allowed)
  have d: "net_down 0 (place_url ''789'') = Rejected NetworkError"
    by (simp add: net_down_def)
  have s: "net_sample 0 (place_url ''789'') = Responded 404 None"
    by (simp add: net_sample_def place_url_def)
  have w1: "fetchJson net_sample url_elsewhere [] = (JNull, [])"
    using C6_fetchJson_degrades[of url_elsewhere net_sample "[]" NetworkError 0 None ns_plain "[]"
        "[]" "[]" req_two 0 Map.empty "[]"] e by simp
  have w2: "fetchJson net_down (place_url ''789'') [] = (JNull, [place_url ''789''])"
    using C6_fetchJson_degrades[of "place_url ''789''" net_down "[]" NetworkError 0 None ns_plain "[]"
        "[]" "[]" req_two 0 Map.empty "[]"] p d
    by (simp add: prod_eq_iff)
  have w3: "fetchJson net_sample (place_url ''789'') [] = (JNull, [place_url ''789''])"
    using C6_fetchJson_degrades[of "place_url ''789''" net_sample "[]" NetworkError 404 None ns_plain
        "[]" "[]" "[]" req_two 0 Map.empty "[]"] p s
    by (simp add: prod_eq_iff)
  have w4: "fst (gamesData ns_plain net_down 0 req_two Map.empty) =
       json_response 200
         (Success [\<lparr>inputId = ''31'', universeId = Some ''31'', name = JNull, visits = JNull,
                    icon = JNull\<rparr>,
                   \<lparr>inputId = ''7'', universeId = Some ''7'', name = JNull, visits = JNull,
                    icon = JNull\<rparr>]
            ''0'' 2)"
    using C6_fetchJson_degrades[of url_elsewhere net_down "[]" NetworkError 0 None ns_plain "[]"
        "[]" "[]" req_two 0 Map.empty "[''31'', ''7'']"]
      net_down_null two_gate two_ids
    by (simp add: two_records)
  from e p d s w1 w2 w3 w4 net_down_null two_gate two_ids show ?thesis by simp
qed

section \<open>The lookup of a place\<close>

text \<open>
  Claim C7. The lookup of a place makes one call. It returns \<open>String(universeId)\<close> when the
  call is answered 2xx with a body that parses to an object whose \<open>universeId\<close> is a number
  or a string of digits, and the place identifier unchanged in every other case: a
  rejected call, another status, a body that does not parse, a body that is not an object,
  a \<open>universeId\<close> that is absent or of another shape. For an integer of magnitude at most
  \<open>2^53\<close> the text is its decimal digits. The lookup has no failing result, and a request
  whose two lookup maps are built is answered 200 whatever the lookups returned.
\<close>

theorem C7_place_to_universe:
  "placeToUniverseId ns net placeId calls =
     ((case net (length calls) (place_url placeId) of
         Rejected _ \<Rightarrow> placeId
       | Responded st parsed \<Rightarrow>
           if 200 \<le> st \<and> st \<le> 299 then
             (case parsed of
                Some (JObj ps) \<Rightarrow>
                  (case map_of (rev ps) ''universeId'' of
                     Some (JNum n) \<Rightarrow> num_String ns n
                   | Some (JStr s) \<Rightarrow> if re_digits_plus s then s else placeId
                   | _ \<Rightarrow> placeId)
              | _ \<Rightarrow> placeId)
           else placeId),
      calls @ [place_url placeId])
   \<and> (\<bar>i\<bar> \<le> 2 ^ 53 \<longrightarrow> num_String ns (Fin (of_int i)) = dec_int i)
   \<and> (req_method req = ''GET'' \<longrightarrow> fst (rateLimit now (getClientIp req) 30 60 rs)
        \<longrightarrow> validatePlaceIds (or_empty (ids_param req)) = placeIds \<longrightarrow> placeIds \<noteq> []
        \<longrightarrow> fetch_stage ns net placeIds = (um, infoData, iconData, made)
        \<longrightarrow> gameInfo_of ns infoData \<noteq> None \<longrightarrow> gameIcons_of ns iconData \<noteq> None
        \<longrightarrow> status (fst (gamesData ns net now req rs)) = 200)"
proof (intro conjI impI)
  show "placeToUniverseId ns net placeId calls =
     ((case net (length calls) (place_url placeId) of
         Rejected _ \<Rightarrow> placeId
       | Responded st parsed \<Rightarrow>
           if 200 \<le> st \<and> st \<le> 299 then
             (case parsed of
                Some (JObj ps) \<Rightarrow>
                  (case map_of (rev ps) ''universeId'' of
                     Some (JNum n) \<Rightarrow> num_String ns n
                   | Some (JStr s) \<Rightarrow> if re_digits_plus s then s else placeId
                   | _ \<Rightarrow> placeId)
              | _ \<Rightarrow> placeId)
           else placeId),
      calls @ [place_url placeId])"
    by (simp add: placeToUniverseId_resolved resolved_def answer_def universe_of_data_def
        split: outcome.splits option.splits json.splits)
next
  assume "\<bar>i\<bar> \<le> 2 ^ 53"
  then show "num_String ns (Fin (of_int i)) = dec_int i"
    by (rule num_String_int)
next
  assume m: "req_method req = ''GET''" and a: "fst (rateLimit now (getClientIp req) 30 60 rs)"
    and v: "validatePlaceIds (or_empty (ids_param req)) = placeIds" and n: "placeIds \<noteq> []"
    and st: "fetch_stage ns net placeIds = (um, infoData, iconData, made)"
    and gi: "gameInfo_of ns infoData \<noteq> None" and gc: "gameIcons_of ns iconData \<noteq> None"
  from gi gc obtain i c where "gameInfo_of ns infoData = Some i" "gameIcons_of ns iconData = Some c"
    by auto
  from gamesData_success[OF m a v n st this]
  show "status (fst (gamesData ns net now req rs)) = 200"
    by (simp add: json_response_def)
qed

lemma sample_lookups:
  "net_sample 0 (place_url ''123'') = Responded 200 (Some (JObj [(''universeId'', JNum (Fin 9001))]))"
  "net_sample 0 (place_url ''456'') = Responded 200 (Some (JObj [(''universeId'', JStr ''9002'')]))"
  "net_sample 0 (place_url ''789'') = Responded 404 None"
  by (simp_all add: net_sample_def place_url_def)

theorem C7_place_to_universe_witness:
  "placeToUniverseId ns_plain net_sample ''123'' [] = (''9001'', [place_url ''123''])
   \<and> placeToUniverseId ns_plain net_sample ''456'' [] = (''9002'', [place_url ''456''])
   \<and> placeToUniverseId ns_plain net_sample ''789'' [] = (''789'', [place_url ''789''])
   \<and> placeToUniverseId ns_plain net_down ''789'' [] = (''789'', [place_url ''789''])
   \<and> \<bar>9001 :: int\<bar> \<le> 2 ^ 53
   \<and> num_String ns_plain (Fin (of_int 9001)) = ''9001''
   \<and> req_method req_two = ''GET''
   \<and> fst (rateLimit 0 (getClientIp req_two) 30 60 Map.empty)
   \<and> validatePlaceIds (or_empty (ids_param req_two)) = [''31'', ''7'']
   \<and> fetch_stage ns_plain net_down [''31'', ''7'']
       = ([(''31'', ''31''), (''7'', ''7'')], JNull, JNull,
          [place_url ''31'', place_url ''7'', games_url [''7'', ''31''], icons_url [''7'', ''31'']])
   \<and> gameInfo_of ns_plain JNull \<noteq> None
   \<and> gameIcons_of ns_plain JNull \<noteq> None
   \<and> status (fst (gamesData ns_plain net_down 0 req_two Map.empty)) = 200"
proof -
  have st: "fetch_stage ns_plain net_down [''31'', ''7'']
       = ([(''31'', ''31''), (''7'', ''7'')], JNull, JNull,
          [place_url ''31'', place_url ''7'', games_url [''7'', ''31''], icons_url [''7'', ''31'']])"
    by (simp add: fetch_stage_eq Let_def placeToUniverseId_resolved resolved_def net_down_def
      answer_def universe_of_data_def Object_values_def is_array_index_def
      is_digit_def digits_val_def digit_val_def unique_values_def)
  have g: "gameInfo_of ns_plain JNull \<noteq> None" "gameIcons_of ns_plain JNull \<noteq> None"
    by (simp_all add: no_info no_icons)
  have b: "\<bar>9001 :: int\<bar> \<le> 2 ^ 53" by simp
  have w1: "placeToUniverseId ns_plain net_sample ''123'' [] = (''9001'', [place_url ''123''])"
    using C7_place_to_universe[of ns_plain net_sample "''123''" "[]" 9001 req_two 0 Map.empty
        "[''31'', ''7'']" "[]" JNull JNull "[]"] sample_lookups
    by (simp add: sample_dec)
  have w2: "placeToUniverseId ns_plain net_sample ''456'' [] = (''9002'', [place_url ''456''])"
    using C7_place_to_universe[of ns_plain net_sample "''456''" "[]" 9001 req_two 0 Map.empty
        "[''31'', ''7'']" "[]" JNull JNull "[]"] sample_lookups
    by (simp add: re_digits_plus_def is_digit_def)
  have w3: "placeToUniverseId ns_plain net_sample ''789'' [] = (''789'', [place_url ''789''])"
    using C7_place_to_universe[of ns_plain net_sample "''789''" "[]" 9001 req_two 0 Map.empty
        "[''31'', ''7'']" "[]" JNull JNull "[]"] sample_lookups
    by simp
  have w4: "placeToUniverseId ns_plain net_down ''789'' [] = (''789'', [place_url ''789''])"
    using C7_place_to_universe[of ns_plain net_down "''789''" "[]" 9001 req_two 0 Map.empty
        "[''31'', ''7'']" "[]" JNull JNull "[]"]
    by (simp add: net_down_def)
  have w5: "num_String ns_plain (Fin (of_int 9001)) = ''9001''
      \<and> status (fst (gamesData ns_plain net_down 0 req_two Map.empty)) = 200"
    using C7_place_to_universe[of ns_plain net_down "''789''" "[]" 9001 req_two 0 Map.empty
        "[''31'', ''7'']" "[(''31'', ''31''), (''7'', ''7'')]" JNull JNull
        "[place_url ''31'', place_url ''7'', games_url [''7'', ''31''], icons_url [''7'', ''31'']]"]
      b st g two_gate two_ids
    by (simp add: sample_dec)
  from w1 w2 w3 w4 w5 b st g two_gate two_ids show ?thesis by simp
qed

section \<open>The admin gate, case by case\<close>

lemma is_write_method: "is_write (if m = [] then ''GET'' else m) = is_write m"
  by (simp add: is_write_def)

lemma gate_denied_sends_nothing:
  "requireAdmin jwtVerify decode env areq = Some (Denied reason) \<Longrightarrow>
   admin_handler_gate jwtVerify decode env areq = Some (Returned None)"
  by (simp add: admin_handler_gate_def requireAdminOr404_def)

text \<open>
  Claim C4, as amended. The page handler answers 404 Not Found to a caller whose address
  fails the allow-list check. In the gated handlers, a request that passes the address and
  token checks and uses a state-changing method without a CSRF header equal to the CSRF
  cookie is answered 403 with the error \<open>Invalid CSRF token\<close>, and the handler returns; a
  request that passes the address and token checks and either uses another method or
  carries the matching header goes on to the handler's work.
\<close>

theorem C4_gate_responses:
  "(\<not> isIpAllowed env req \<longrightarrow>
      page_login env req
        = \<lparr>status = 404, body = Html ''<!doctype html><title>404 Not Found</title><h1>Not Found</h1>''\<rparr>)
   \<and> (requireAdmin jwtVerify decode env areq = Some (Granted payload csrf)
        \<longrightarrow> is_write (req_method areq)
        \<longrightarrow> present (x_csrf_token areq) = None \<or> x_csrf_token areq \<noteq> csrf
        \<longrightarrow> admin_handler_gate jwtVerify decode env areq
              = Some (Returned (Some (json_response 403 (Failure ''Invalid CSRF token'' None)))))
   \<and> (requireAdmin jwtVerify decode env areq = Some (Granted payload csrf)
        \<longrightarrow> \<not> is_write (req_method areq)
            \<or> (present (x_csrf_token areq) \<noteq> None \<and> x_csrf_token areq = csrf)
        \<longrightarrow> admin_handler_gate jwtVerify decode env areq = Some Proceeds)"
proof (intro conjI impI)
  assume "\<not> isIpAllowed env req"
  then show "page_login env req
        = \<lparr>status = 404, body = Html ''<!doctype html><title>404 Not Found</title><h1>Not Found</h1>''\<rparr>"
    by (simp add: page_login_def)
next
  assume "requireAdmin jwtVerify decode env areq = Some (Granted payload csrf)"
    "is_write (req_method areq)"
    "present (x_csrf_token areq) = None \<or> x_csrf_token areq \<noteq> csrf"
  then show "admin_handler_gate jwtVerify decode env areq
              = Some (Returned (Some (json_response 403 (Failure ''Invalid CSRF token'' None))))"
    by (auto simp add: admin_handler_gate_def requireAdminOr404_def Let_def is_write_method)
next
  assume "requireAdmin jwtVerify decode env areq = Some (Granted payload csrf)"
    "\<not> is_write (req_method areq)
            \<or> (present (x_csrf_token areq) \<noteq> None \<and> x_csrf_token areq = csrf)"
  then show "admin_handler_gate jwtVerify decode env areq = Some Proceeds"
    by (auto simp add: admin_handler_gate_def requireAdminOr404_def Let_def is_write_method)
qed

lemma office_allowlist: "parseAllowlist env_office = [''203.0.113.5'']"
  by (simp add: parseAllowlist_def env_office_def or_empty_def js_trim_def is_ws_def)

lemma notes_allowlist: "parseAllowlist env_notes = [''154.238.160.118'', ''127.0.0.1'']"
  by (simp add: parseAllowlist_def env_notes_def or_empty_def js_trim_def is_ws_def)

lemma request_addresses:
  "getClientIp req_admin_post = ''203.0.113.5''"
  "getClientIp req_admin_get = ''203.0.113.5''"
  "getClientIp req_outsider = ''203.0.113.50''"
  by (simp_all add: getClientIp_def present_def req_admin_post_def req_admin_get_def
      req_outsider_def js_trim_def is_ws_def)

lemma request_cookies:
  "cookie req_admin_post = Some ''yd_admin=tok; yd_csrf=c1''"
  "cookie req_admin_get = Some ''yd_admin=tok; yd_csrf=c1''"
  "cookie req_outsider = Some ''yd_admin=tok; yd_csrf=c1''"
  by (simp_all add: req_admin_post_def req_admin_get_def req_outsider_def)

lemma sample_cookies:
  "parseCookies decode_plain req_admin_post = Some [''yd_admin'' \<mapsto> ''tok'', ''yd_csrf'' \<mapsto> ''c1'']"
  "parseCookies decode_plain req_admin_get = Some [''yd_admin'' \<mapsto> ''tok'', ''yd_csrf'' \<mapsto> ''c1'']"
  "parseCookies decode_plain req_outsider = Some [''yd_admin'' \<mapsto> ''tok'', ''yd_csrf'' \<mapsto> ''c1'']"
  by (simp_all add: parseCookies_def request_cookies or_empty_def decode_plain_def js_trim_def
      is_ws_def Let_def)

lemma office_secret: "getJwtSecret env_office = Some ''0123456789abcdef0123456789abcdef''"
  "getJwtSecret env_notes = Some ''0123456789abcdef0123456789abcdef''"
  by (simp_all add: getJwtSecret_def env_office_def env_notes_def present_def)

lemma office_admin:
  "requireAdmin verify_tok decode_plain env_office req_admin_post = Some (Granted ''admin'' (Some ''c1''))"
  "requireAdmin verify_tok decode_plain env_office req_admin_get = Some (Granted ''admin'' (Some ''c1''))"
  by (simp_all add: requireAdmin_def isIpAllowed_def Let_def office_allowlist request_addresses
      office_secret sample_cookies COOKIE_NAME_def CSRF_COOKIE_def present_def verify_tok_def)

lemma post_fields:
  "req_method req_admin_post = ''POST''" "x_csrf_token req_admin_post = Some ''zzz''"
  by (simp_all add: req_admin_post_def)

lemma office_outsider: "\<not> isIpAllowed env_office req_outsider"
  by (simp add: isIpAllowed_def Let_def office_allowlist request_addresses)

theorem C4_gate_responses_witness:
  "\<not> isIpAllowed env_office req_outsider
   \<and> page_login env_office req_outsider
       = \<lparr>status = 404, body = Html ''<!doctype html><title>404 Not Found</title><h1>Not Found</h1>''\<rparr>
   \<and> requireAdmin verify_tok decode_plain env_office req_admin_post
       = Some (Granted ''admin'' (Some ''c1''))
   \<and> is_write (req_method req_admin_post)
   \<and> x_csrf_token req_admin_post \<noteq> Some ''c1''
   \<and> admin_handler_gate verify_tok decode_plain env_office req_admin_post
       = Some (Returned (Some (json_response 403 (Failure ''Invalid CSRF token'' None))))
   \<and> requireAdmin verify_tok decode_plain env_office req_admin_get
       = Some (Granted ''admin'' (Some ''c1''))
   \<and> \<not> is_write (req_method req_admin_get)
   \<and> admin_handler_gate verify_tok decode_plain env_office req_admin_get = Some Proceeds"
proof -
  have w: "is_write (req_method req_admin_post)" "x_csrf_token req_admin_post \<noteq> Some ''c1''"
    "\<not> is_write (req_method req_admin_get)"
    by (simp_all add: req_admin_post_def req_admin_get_def is_write_def)
  have p: "page_login env_office req_outsider
       = \<lparr>status = 404, body = Html ''<!doctype html><title>404 Not Found</title><h1>Not Found</h1>''\<rparr>"
    using C4_gate_responses[of env_office req_outsider verify_tok decode_plain req_admin_post
        "''admin''" "Some ''c1''"] office_outsider
    by simp
  have f: "admin_handler_gate verify_tok decode_plain env_office req_admin_post
       = Some (Returned (Some (json_response 403 (Failure ''Invalid CSRF token'' None))))"
    using C4_gate_responses[of env_office req_outsider verify_tok decode_plain req_admin_post
        "''admin''" "Some ''c1''"] office_admin(1) w
    by simp
  have g: "admin_handler_gate verify_tok decode_plain env_office req_admin_get = Some Proceeds"
    using C4_gate_responses[of env_office req_outsider verify_tok decode_plain req_admin_get
        "''admin''" "Some ''c1''"] office_admin(2) w
    by simp
  from office_outsider p office_admin w f g show ?thesis by simp
qed

text \<open>
  Claim C4 as stated fails on the CSRF condition: a \<open>POST\<close> from an allowed address with a
  valid session token and a CSRF header that differs from the cookie is answered 403 with
  \<open>Invalid CSRF token\<close>, not 404.
\<close>

theorem C4_csrf_forbidden_counterexample:
  "requireAdmin verify_tok decode_plain env_office req_admin_post
     = Some (Granted ''admin'' (Some ''c1''))
   \<and> admin_handler_gate verify_tok decode_plain env_office req_admin_post
       = Some (Returned (Some \<lparr>status = 403, body = Failure ''Invalid CSRF token'' None\<rparr>))"
  by (simp add: office_admin admin_handler_gate_def requireAdminOr404_def Let_def is_write_def
      post_fields present_def json_response_def)

text \<open>What \<open>requireAdmin\<close> does require: an empty or unset allow-list is refused, and a
  grant needs a secret of sixteen characters or more, a non-empty session cookie and a
  token that verifies under the secret.\<close>

lemma empty_allowlist_denied:
  "parseAllowlist env = [] \<Longrightarrow> requireAdmin jwtVerify decode env req = Some (Denied ''ip'')"
  by (simp add: requireAdmin_def isIpAllowed_def)

lemma unset_allowlist_empty:
  "ADMIN_ALLOWLIST env = None \<or> ADMIN_ALLOWLIST env = Some [] \<Longrightarrow> parseAllowlist env = []"
  by (auto simp add: parseAllowlist_def or_empty_def js_trim_def)

lemma requireAdmin_granted:
  assumes "requireAdmin jwtVerify decode env req = Some (Granted payload csrf)"
  shows "isIpAllowed env req \<and> parseAllowlist env \<noteq> []
         \<and> (\<exists>secret cookies token.
               getJwtSecret env = Some secret \<and> 16 \<le> length secret
               \<and> parseCookies decode req = Some cookies
               \<and> cookies COOKIE_NAME = Some token \<and> token \<noteq> []
               \<and> jwtVerify token secret = Some payload)"
  using assms
  by (auto simp add: requireAdmin_def isIpAllowed_def getJwtSecret_def present_def Let_def
      split: if_splits option.splits)

text \<open>
  Claim C9 at its failing input. With the allow-list \<open>154.238.160.118,127.0.0.1\<close> a caller
  at \<open>203.0.113.50\<close>, which is not on the list, passes \<open>isIpAllowed\<close>, and \<open>requireAdmin\<close>
  succeeds with a token that verifies.
\<close>

theorem C9_allowlist_bypass:
  "getClientIp req_outsider = ''203.0.113.50''
   \<and> parseAllowlist env_notes = [''154.238.160.118'', ''127.0.0.1'']
   \<and> isIpAllowed env_notes req_outsider
   \<and> requireAdmin verify_tok decode_plain env_notes req_outsider
       = Some (Granted ''admin'' (Some ''c1''))"
  by (simp add: requireAdmin_def isIpAllowed_def Let_def notes_allowlist request_addresses
      office_secret sample_cookies COOKIE_NAME_def CSRF_COOKIE_def present_def verify_tok_def)

section \<open>Two corner cases of the lookup maps\<close>

text \<open>An identifier with an own \<open>toString\<close> property makes \<open>String\<close> throw inside the \<open>try\<close>
  block, and the request is answered 500. An object assigned under \<open>__proto__\<close> answers the
  reads of \<open>gameIcons\<close> that find no own property.\<close>

lemma hostile_stage:
  "fetch_stage ns_plain net_hostile [''7''] =
     ([(''7'', ''7'')], hostile_games, inherited_icons,
      [place_url ''7'', games_url [''7''], icons_url [''7'']])"
  by (simp add: fetch_stage_eq Let_def placeToUniverseId_resolved resolved_def net_hostile_def
      answer_def universe_of_data_def place_url_def Object_values_def is_array_index_def
      is_digit_def digits_val_def digit_val_def unique_values_def games_url_def icons_url_def)

lemma hostile_info: "gameInfo_of ns_plain hostile_games = None"
  by (simp add: gameInfo_of_def hostile_games_def)

lemma hostile_response:
  "fst (gamesData ns_plain net_hostile 0 req_seven Map.empty)
     = json_response 500
         (Failure ''An error occurred while fetching game data. Please try again.'' (Some 500))"
  using negative_gate negative_ids hostile_stage hostile_info
  by (simp add: gamesData_try try_block_def)

lemma inherited_icon:
  "map_option (\<lambda>gameIcons. icon_lookup gameIcons ''7'') (gameIcons_of ns_plain inherited_icons)
     = Some (JStr ''x'')"
  by (simp add: gameIcons_of_def inherited_icons_def icons_set_def setter_shadowed_def
      empty_icons_def icon_lookup_def icons_get_def)

end
